theory Spec2Isabelle
  imports Complex_Main
begin

section \<open>The mock backend of src/mockServer/server.js\<close>

text \<open>
  The server keeps four process-wide \<open>Map\<close>s (users, bets, sessions, accountFlags) and
  answers six routes. Each route handler is embedded as a function from the request and
  the four stores to a response and the four stores afterwards. Every read of the system
  clock is an argument of the handler, one per \<open>Date.now()\<close> or \<open>new Date()\<close> in the
  source, so that nothing is assumed about two reads of one request being equal.
\<close>

subsection \<open>JSON values and the JavaScript operators the handlers apply to them\<close>

text \<open>
  A request body is what \<open>bodyParser.json()\<close> hands over: an object whose fields hold
  JSON values. The fields the handlers read are modelled as JSON primitives (null,
  booleans, numbers, strings); a field holding an array or a nested object is not covered by
  this development. A number is the value of the IEEE double that \<open>JSON.parse\<close> produced:
  a rational, or an infinity (from a literal such as 1e999); \<open>NaN\<close> arises only as a
  result of \<open>parseFloat\<close>. Negative zero is identified with zero, which no operator used
  here tells apart.
\<close>

datatype jsnum = NaN | Fnum rat | PInf | NInf

datatype jsval = JNull | JBool bool | JNum jsnum | JStr string

text \<open>An object: \<open>None\<close> is the field being absent, so a read of it gives \<open>undefined\<close>.\<close>

type_synonym body = "string \<Rightarrow> jsval option"

text \<open>
  Library functions of the JavaScript engine whose results on strings are fixed by the
  engine and not by this repository: they are parameters of every handler, and every
  theorem below holds for all of them.
\<close>

record builtins =
  parseFloat_str :: "string \<Rightarrow> jsnum"      \<comment> \<open>\<open>parseFloat(s)\<close> for a string \<open>s\<close>\<close>
  Date_parse :: "string \<Rightarrow> int option"      \<comment> \<open>time value of \<open>new Date(s)\<close>; \<open>None\<close> is Invalid Date\<close>
  Number_toString :: "jsnum \<Rightarrow> string"     \<comment> \<open>\<open>String(n)\<close> for a number \<open>n\<close>\<close>
  base64 :: "string \<Rightarrow> string"             \<comment> \<open>\<open>Buffer.from(s).toString('base64')\<close>\<close>

text \<open>Truthiness, as \<open>!x\<close>, \<open>x && y\<close> and \<open>x || y\<close> test it.\<close>

fun truthy :: "jsval option \<Rightarrow> bool" where
  "truthy None = False"
| "truthy (Some JNull) = False"
| "truthy (Some (JBool b)) = b"
| "truthy (Some (JNum n)) = (n \<noteq> NaN \<and> n \<noteq> Fnum 0)"
| "truthy (Some (JStr s)) = (s \<noteq> [])"

text \<open>Strict equality \<open>===\<close> on primitives: \<open>NaN\<close> equals nothing, itself included.\<close>

definition strict_eq :: "jsval option \<Rightarrow> jsval option \<Rightarrow> bool" where
  "strict_eq a b = (a = b \<and> a \<noteq> Some (JNum NaN))"

text \<open>
  \<open>parseFloat(x)\<close> converts its argument to a string first. A number prints to a literal
  that reads back as the same number; \<open>undefined\<close>, \<open>null\<close>, \<open>true\<close> and \<open>false\<close> print
  to words that are not numeric literals.
\<close>

fun parseFloat :: "builtins \<Rightarrow> jsval option \<Rightarrow> jsnum" where
  "parseFloat B (Some (JNum n)) = n"
| "parseFloat B (Some (JStr s)) = parseFloat_str B s"
| "parseFloat B _ = NaN"

text \<open>The two comparisons of the fraud rules; a comparison with \<open>NaN\<close> is false.\<close>

fun le_zero :: "jsnum \<Rightarrow> bool" where
  "le_zero (Fnum r) = (r \<le> 0)"
| "le_zero NInf = True"
| "le_zero _ = False"

fun gt_twenty :: "jsnum \<Rightarrow> bool" where
  "gt_twenty (Fnum r) = (20 < r)"
| "gt_twenty PInf = True"
| "gt_twenty _ = False"

text \<open>\<open>String.prototype.includes\<close>: does the pattern occur in the string?\<close>

fun starts_with :: "string \<Rightarrow> string \<Rightarrow> bool" where
  "starts_with s [] = True"
| "starts_with [] (p # ps) = False"
| "starts_with (c # cs) (p # ps) = (c = p \<and> starts_with cs ps)"

fun str_includes :: "string \<Rightarrow> string \<Rightarrow> bool" where
  "str_includes [] p = (p = [])"
| "str_includes (c # cs) p = (starts_with (c # cs) p \<or> str_includes cs p)"

text \<open>
  \<open>betData.matchId.includes('-altered')\<close>. Only a string has the method among the
  primitives; on a number or a boolean the call throws a TypeError (\<open>None\<close>).
\<close>

fun matchId_includes_altered :: "jsval option \<Rightarrow> bool option" where
  "matchId_includes_altered (Some (JStr s)) = Some (str_includes s ''-altered'')"
| "matchId_includes_altered _ = None"

text \<open>
  The time value of \<open>new Date(x)\<close>, in milliseconds; \<open>None\<close> is an Invalid Date. A
  string is parsed; any other value is converted to a number, which is clipped to the
  range of time values and truncated towards zero.
\<close>

definition trunc :: "rat \<Rightarrow> int" where
  "trunc r = (if 0 \<le> r then \<lfloor>r\<rfloor> else \<lceil>r\<rceil>)"

definition time_clip :: "rat \<Rightarrow> int option" where
  "time_clip t = (if \<bar>t\<bar> \<le> 8640000000000000 then Some (trunc t) else None)"

fun new_Date :: "builtins \<Rightarrow> jsval option \<Rightarrow> int option" where
  "new_Date B (Some (JStr s)) = Date_parse B s"
| "new_Date B (Some (JNum (Fnum r))) = time_clip r"
| "new_Date B (Some (JNum _)) = None"
| "new_Date B (Some (JBool b)) = Some (if b then 1 else 0)"
| "new_Date B (Some JNull) = Some 0"
| "new_Date B None = None"

text \<open>\<open>a < b\<close> on two Date objects compares their time values; an Invalid Date is \<open>NaN\<close>.\<close>

fun date_less :: "int option \<Rightarrow> int option \<Rightarrow> bool" where
  "date_less (Some a) (Some b) = (a < b)"
| "date_less _ _ = False"

text \<open>The decimal digits of a clock reading: \<open>Date.now().toString()\<close>.\<close>

fun dec :: "nat \<Rightarrow> string" where
  "dec n = (if n < 10 then [''0123456789'' ! n] else dec (n div 10) @ [''0123456789'' ! (n mod 10)])"

declare dec.simps [simp del]

text \<open>\<open>String(x)\<close> inside a template literal.\<close>

fun to_String :: "builtins \<Rightarrow> jsval \<Rightarrow> string" where
  "to_String B (JStr s) = s"
| "to_String B JNull = ''null''"
| "to_String B (JBool b) = (if b then ''true'' else ''false'')"
| "to_String B (JNum n) = Number_toString B n"

subsection \<open>The stores\<close>

text \<open>
  A JavaScript \<open>Map\<close> keeps its keys in insertion order: \<open>set\<close> on a key already there
  replaces the value in place, on a new key it appends.
\<close>

fun mget :: "('k \<times> 'v) list \<Rightarrow> 'k \<Rightarrow> 'v option" where
  "mget [] k = None"
| "mget ((k', v) # m) k = (if k' = k then Some v else mget m k)"

fun mset :: "'k \<Rightarrow> 'v \<Rightarrow> ('k \<times> 'v) list \<Rightarrow> ('k \<times> 'v) list" where
  "mset k v [] = [(k, v)]"
| "mset k v ((k', v') # m) = (if k' = k then (k, v) # m else (k', v') # mset k v m)"

definition mvalues :: "('k \<times> 'v) list \<Rightarrow> 'v list" where
  "mvalues m = map snd m"

text \<open>
  A user object is \<open>{id: userId, ...userData, createdAt, status: 'active'}\<close>: the fields of
  the request body are copied over \<open>id\<close>, and \<open>createdAt\<close> and \<open>status\<close> are written
  after them. \<open>u_data\<close> is the body, read for \<open>username\<close>, \<open>email\<close> and \<open>password\<close>;
  \<open>createdAt\<close> is kept as the clock reading its ISO string denotes.
\<close>

record user =
  u_id :: jsval
  u_data :: body
  u_createdAt :: nat
  u_status :: string

text \<open>
  A session refers to the user object. The handlers read only \<open>session.user.id\<close>, which
  nothing assigns after the object is built, so the session holds that id.
\<close>

record session =
  s_user_id :: jsval
  s_createdAt :: nat

record flag =
  f_type :: string
  f_reason :: string
  f_timestamp :: nat
  f_data :: body

text \<open>
  A bet is \<open>{id: betId, userId, ...betData, status: 'pending', createdAt}\<close>: again the
  body's fields are copied over \<open>id\<close> and \<open>userId\<close>, and \<open>status\<close> and \<open>createdAt\<close>
  are written after them. \<open>b_data\<close> is the body, read for \<open>matchId\<close>, \<open>selection\<close>,
  \<open>odds\<close> and \<open>amount\<close>.
\<close>

record bet =
  b_id :: jsval
  b_userId :: jsval
  b_data :: body
  b_status :: string
  b_createdAt :: nat

record server =
  users :: "(jsval \<times> user) list"
  bets :: "(string \<times> bet) list"
  sessions :: "(string \<times> session) list"
  accountFlags :: "(jsval \<times> flag list) list"

definition empty_server :: server where
  "empty_server = \<lparr>users = [], bets = [], sessions = [], accountFlags = []\<rparr>"

text \<open>A field written before \<open>...body\<close> in an object literal: the body's own field wins.\<close>

definition overridable :: "body \<Rightarrow> string \<Rightarrow> jsval \<Rightarrow> jsval" where
  "overridable b k v = (case b k of Some w \<Rightarrow> w | None \<Rightarrow> v)"

subsection \<open>Responses\<close>

record user_view =
  uv_id :: jsval
  uv_username :: "jsval option"
  uv_email :: "jsval option"
  uv_status :: string

record bet_view =
  bv_id :: jsval
  bv_matchId :: "jsval option"
  bv_selection :: "jsval option"
  bv_odds :: "jsval option"
  bv_amount :: "jsval option"
  bv_status :: string

record history_item =
  h_id :: jsval
  h_matchId :: "jsval option"
  h_selection :: "jsval option"
  h_odds :: "jsval option"
  h_amount :: "jsval option"
  h_status :: string
  h_createdAt :: nat

record status_report =
  r_accountId :: jsval
  r_status :: string
  r_flags :: "flag list"
  r_restrictions :: "string list"
  r_verificationStatus :: string
  r_fraudWarnings :: nat
  r_lastUpdated :: nat

datatype payload =
    ErrorBody string                      \<comment> \<open>\<open>{error}\<close>\<close>
  | FraudBody string string string        \<comment> \<open>\<open>{error, fraudType, details}\<close>\<close>
  | AuthBody string string user_view      \<comment> \<open>\<open>{message, token, user}\<close>\<close>
  | BetBody string jsval bet_view         \<comment> \<open>\<open>{message, betId, bet}\<close>\<close>
  | HistoryBody "history_item list"
  | StatusBody status_report
  | UncaughtTypeError                     \<comment> \<open>the handler threw; Express answers 500\<close>

datatype response = Response nat payload

subsection \<open>The authentication middleware\<close>

text \<open>\<open>s.split(' ')\<close>: the pieces between single spaces, empty pieces included.\<close>

fun split_space :: "string \<Rightarrow> string list" where
  "split_space [] = [[]]"
| "split_space (c # cs) =
     (if c = CHR '' '' then [] # split_space cs
      else (case split_space cs of [] \<Rightarrow> [[c]] | w # ws \<Rightarrow> (c # w) # ws))"

text \<open>
  \<open>authHeader && authHeader.split(' ')[1]\<close>, then \<open>!token\<close>: the header is absent or
  empty, or it has no second piece, or the second piece is empty.
\<close>

definition bearer_token :: "string option \<Rightarrow> string option" where
  "bearer_token authHeader =
     (case authHeader of
        None \<Rightarrow> None
      | Some h \<Rightarrow>
          (if h = [] then None
           else (case split_space h of
                   _ # t # _ \<Rightarrow> (if t = [] then None else Some t)
                 | _ \<Rightarrow> None)))"

text \<open>
  \<open>authenticateToken\<close>: either the 401 response that ends the request (\<open>Inl\<close>), or
  \<open>req.user.id\<close> for the route handler that runs next (\<open>Inr\<close>).
\<close>

definition authenticateToken :: "server \<Rightarrow> string option \<Rightarrow> response + jsval" where
  "authenticateToken s authHeader =
     (case bearer_token authHeader of
        None \<Rightarrow> Inl (Response 401 (ErrorBody ''Unauthorized: Missing token''))
      | Some token \<Rightarrow>
          (case mget (sessions s) token of
             None \<Rightarrow> Inl (Response 401 (ErrorBody ''Unauthorized: Invalid token''))
           | Some sess \<Rightarrow> Inr (s_user_id sess)))"

subsection \<open>POST /auth/register and POST /auth/login\<close>

record register_clock =
  at_userId :: nat          \<comment> \<open>\<open>Date.now()\<close> of \<open>userId\<close>\<close>
  at_user_created :: nat    \<comment> \<open>\<open>new Date()\<close> of \<open>user.createdAt\<close>\<close>
  at_reg_token :: nat       \<comment> \<open>\<open>Date.now()\<close> inside the token\<close>
  at_reg_session :: nat     \<comment> \<open>\<open>new Date()\<close> of the session\<close>

definition user_view_of :: "user \<Rightarrow> user_view" where
  "user_view_of u =
     \<lparr>uv_id = u_id u, uv_username = u_data u ''username'', uv_email = u_data u ''email'',
      uv_status = u_status u\<rparr>"

definition same_identity :: "body \<Rightarrow> user \<Rightarrow> bool" where
  "same_identity userData u =
     (strict_eq (u_data u ''username'') (userData ''username'')
      \<or> strict_eq (u_data u ''email'') (userData ''email''))"

definition register :: "builtins \<Rightarrow> register_clock \<Rightarrow> body \<Rightarrow> server \<Rightarrow> response \<times> server" where
  "register B clk userData s =
     (if \<not> (truthy (userData ''username'') \<and> truthy (userData ''email'')
             \<and> truthy (userData ''password''))
      then (Response 400 (ErrorBody ''Missing required fields''), s)
      else if list_ex (same_identity userData) (mvalues (users s))
      then (Response 409 (ErrorBody ''Username or email already exists''), s)
      else
        (let userId = dec (at_userId clk);
             u = \<lparr>u_id = overridable userData ''id'' (JStr userId), u_data = userData,
                  u_createdAt = at_user_created clk, u_status = ''active''\<rparr>;
             token = base64 B (userId @ '':'' @ dec (at_reg_token clk))
         in (Response 201 (AuthBody ''User registered successfully'' token (user_view_of u)),
             s\<lparr>users := mset (JStr userId) u (users s),
               accountFlags := mset (JStr userId) [] (accountFlags s),
               sessions := mset token \<lparr>s_user_id = u_id u, s_createdAt = at_reg_session clk\<rparr>
                             (sessions s)\<rparr>)))"

record login_clock =
  at_login_token :: nat
  at_login_session :: nat

definition credentials_match :: "body \<Rightarrow> user \<Rightarrow> bool" where
  "credentials_match b u =
     (strict_eq (u_data u ''username'') (b ''username'')
      \<and> strict_eq (u_data u ''password'') (b ''password''))"

definition login :: "builtins \<Rightarrow> login_clock \<Rightarrow> body \<Rightarrow> server \<Rightarrow> response \<times> server" where
  "login B clk b s =
     (case find (credentials_match b) (mvalues (users s)) of
        None \<Rightarrow> (Response 401 (ErrorBody ''Invalid credentials''), s)
      | Some u \<Rightarrow>
          (if u_status u = ''blocked''
           then (Response 403 (ErrorBody ''Account is blocked''), s)
           else
             (let token = base64 B (to_String B (u_id u) @ '':'' @ dec (at_login_token clk))
              in (Response 200 (AuthBody ''Login successful'' token (user_view_of u)),
                  s\<lparr>sessions := mset token
                       \<lparr>s_user_id = u_id u, s_createdAt = at_login_session clk\<rparr> (sessions s)\<rparr>))))"

subsection \<open>POST /bets/place\<close>

record verdict =
  isFraudulent :: bool
  fraudReason :: string
  fraudType :: string

record bet_clock =
  at_check :: nat         \<comment> \<open>\<open>Date.now()\<close> of the timestamp rule\<close>
  at_flag :: nat          \<comment> \<open>\<open>new Date()\<close> of the flag\<close>
  at_betId :: nat         \<comment> \<open>\<open>Date.now()\<close> inside \<open>betId\<close>\<close>
  at_bet_created :: nat   \<comment> \<open>\<open>new Date()\<close> of \<open>bet.createdAt\<close>\<close>

text \<open>The required-field check: the negation of the condition of line 128.\<close>

definition has_required :: "body \<Rightarrow> bool" where
  "has_required betData =
     (truthy (betData ''matchId'') \<and> truthy (betData ''amount'')
      \<and> truthy (betData ''odds'') \<and> truthy (betData ''selection''))"

text \<open>The conditions of the five \<open>if\<close> statements, lines 139 to 167.\<close>

definition amount_not_positive :: "builtins \<Rightarrow> body \<Rightarrow> bool" where
  "amount_not_positive B betData = le_zero (parseFloat B (betData ''amount''))"

definition odds_too_high :: "builtins \<Rightarrow> body \<Rightarrow> bool" where
  "odds_too_high B betData = gt_twenty (parseFloat B (betData ''odds''))"

definition timestamp_too_old :: "builtins \<Rightarrow> nat \<Rightarrow> body \<Rightarrow> bool" where
  "timestamp_too_old B now betData =
     (truthy (betData ''timestamp'')
      \<and> date_less (new_Date B (betData ''timestamp'')) (time_clip (of_nat now - 3600000)))"

definition has_unauthorized_field :: "body \<Rightarrow> bool" where
  "has_unauthorized_field betData =
     (truthy (betData ''serverBypass'') \<or> truthy (betData ''adminApproval''))"

text \<open>
  The fraud detection block: three variables, assigned by each \<open>if\<close> whose condition
  holds, in the order of the source. \<open>None\<close> is the TypeError of the third condition.
\<close>

definition detect_fraud :: "builtins \<Rightarrow> nat \<Rightarrow> body \<Rightarrow> verdict option" where
  "detect_fraud B now betData =
     (let v0 = \<lparr>isFraudulent = False, fraudReason = [], fraudType = []\<rparr>;
          v1 = (if amount_not_positive B betData
                then \<lparr>isFraudulent = True, fraudReason = ''Fraud detected: Invalid bet amount'',
                      fraudType = ''negative-amount''\<rparr>
                else v0);
          v2 = (if odds_too_high B betData
                then \<lparr>isFraudulent = True,
                      fraudReason = ''Fraud detected: Suspicious odds manipulation'',
                      fraudType = ''odds-manipulation''\<rparr>
                else v1)
      in case matchId_includes_altered (betData ''matchId'') of
           None \<Rightarrow> None
         | Some altered \<Rightarrow>
             (let v3 = (if altered
                        then \<lparr>isFraudulent = True,
                              fraudReason = ''Fraud detected: Match ID tampering detected'',
                              fraudType = ''match-alteration''\<rparr>
                        else v2);
                  v4 = (if timestamp_too_old B now betData
                        then \<lparr>isFraudulent = True,
                              fraudReason = ''Fraud detected: Timestamp manipulation detected'',
                              fraudType = ''timestamp-manipulation''\<rparr>
                        else v3);
                  v5 = (if has_unauthorized_field betData
                        then \<lparr>isFraudulent = True,
                              fraudReason = ''Fraud detected: Unauthorized request fields'',
                              fraudType = ''request-tampering''\<rparr>
                        else v4)
              in Some v5))"

definition fraud_attempts :: "flag list \<Rightarrow> nat" where
  "fraud_attempts fs = length (filter (\<lambda>f. f_type f = ''fraud_attempt'') fs)"

definition flags_of :: "server \<Rightarrow> jsval \<Rightarrow> flag list" where
  "flags_of s userId = (case mget (accountFlags s) userId of None \<Rightarrow> [] | Some fs \<Rightarrow> fs)"

text \<open>Lines 174 to 199: flag the account, block it at three fraud attempts, answer 400.\<close>

definition reject_bet :: "bet_clock \<Rightarrow> jsval \<Rightarrow> body \<Rightarrow> verdict \<Rightarrow> server \<Rightarrow> response \<times> server" where
  "reject_bet clk userId betData v s =
     (let userFlags = flags_of s userId @
            [\<lparr>f_type = ''fraud_attempt'', f_reason = fraudReason v,
              f_timestamp = at_flag clk, f_data = betData\<rparr>];
          s1 = s\<lparr>accountFlags := mset userId userFlags (accountFlags s)\<rparr>;
          s2 = (if 3 \<le> fraud_attempts userFlags
                then (case mget (users s1) userId of
                        None \<Rightarrow> s1
                      | Some u \<Rightarrow> s1\<lparr>users := mset userId (u\<lparr>u_status := ''blocked''\<rparr>) (users s1)\<rparr>)
                else s1)
      in (Response 400 (FraudBody (fraudReason v) (fraudType v) (fraudReason v)), s2))"

text \<open>
  Lines 201 to 224: build and store the bet, answer 201. \<open>userId.substring(0, 5)\<close>
  throws a TypeError when the session's id is not a string.
\<close>

definition accept_bet :: "bet_clock \<Rightarrow> jsval \<Rightarrow> body \<Rightarrow> server \<Rightarrow> response \<times> server" where
  "accept_bet clk userId betData s =
     (case userId of
        JStr uid \<Rightarrow>
          (let betId = ''BET-'' @ dec (at_betId clk) @ ''-'' @ take 5 uid;
               b = \<lparr>b_id = overridable betData ''id'' (JStr betId),
                    b_userId = overridable betData ''userId'' userId,
                    b_data = betData, b_status = ''pending'',
                    b_createdAt = at_bet_created clk\<rparr>
           in (Response 201
                 (BetBody ''Bet placed successfully'' (b_id b)
                    \<lparr>bv_id = b_id b, bv_matchId = b_data b ''matchId'',
                     bv_selection = b_data b ''selection'', bv_odds = b_data b ''odds'',
                     bv_amount = b_data b ''amount'', bv_status = ''pending''\<rparr>),
               s\<lparr>bets := mset betId b (bets s)\<rparr>))
      | _ \<Rightarrow> (Response 500 UncaughtTypeError, s))"

definition place_bet_as :: "builtins \<Rightarrow> bet_clock \<Rightarrow> jsval \<Rightarrow> body \<Rightarrow> server \<Rightarrow> response \<times> server" where
  "place_bet_as B clk userId betData s =
     (if \<not> has_required betData
      then (Response 400 (ErrorBody ''Missing required bet information''), s)
      else (case detect_fraud B (at_check clk) betData of
              None \<Rightarrow> (Response 500 UncaughtTypeError, s)
            | Some v \<Rightarrow>
                (if isFraudulent v then reject_bet clk userId betData v s
                 else accept_bet clk userId betData s)))"

definition place_bet :: "builtins \<Rightarrow> bet_clock \<Rightarrow> string option \<Rightarrow> body \<Rightarrow> server \<Rightarrow> response \<times> server" where
  "place_bet B clk authHeader betData s =
     (case authenticateToken s authHeader of
        Inl r \<Rightarrow> (r, s)
      | Inr userId \<Rightarrow> place_bet_as B clk userId betData s)"

subsection \<open>GET /bets/history and GET /users/account-status\<close>

definition history_item_of :: "bet \<Rightarrow> history_item" where
  "history_item_of b =
     \<lparr>h_id = b_id b, h_matchId = b_data b ''matchId'', h_selection = b_data b ''selection'',
      h_odds = b_data b ''odds'', h_amount = b_data b ''amount'', h_status = b_status b,
      h_createdAt = b_createdAt b\<rparr>"

text \<open>
  \<open>sort\<close> with the comparator \<open>new Date(b.createdAt) - new Date(a.createdAt)\<close> is a
  stable sort by descending creation time.
\<close>

definition user_bets :: "server \<Rightarrow> jsval \<Rightarrow> bet list" where
  "user_bets s userId =
     sort_key (\<lambda>b. - int (b_createdAt b))
       (filter (\<lambda>b. strict_eq (Some (b_userId b)) (Some userId)) (mvalues (bets s)))"

definition bet_history_as :: "jsval \<Rightarrow> server \<Rightarrow> response \<times> server" where
  "bet_history_as userId s =
     (Response 200 (HistoryBody (map history_item_of (user_bets s userId))), s)"

definition bet_history :: "string option \<Rightarrow> server \<Rightarrow> response \<times> server" where
  "bet_history authHeader s =
     (case authenticateToken s authHeader of
        Inl r \<Rightarrow> (r, s)
      | Inr userId \<Rightarrow> bet_history_as userId s)"

definition account_status_as :: "nat \<Rightarrow> jsval \<Rightarrow> server \<Rightarrow> response \<times> server" where
  "account_status_as now userId s =
     (case mget (users s) userId of
        None \<Rightarrow> (Response 404 (ErrorBody ''User not found''), s)
      | Some u \<Rightarrow>
          (let userFlags = flags_of s userId;
               hasFraudFlags = list_ex (\<lambda>f. f_type f = ''fraud_attempt'') userFlags
           in (Response 200
                 (StatusBody
                    \<lparr>r_accountId = userId, r_status = u_status u, r_flags = userFlags,
                     r_restrictions =
                       (if hasFraudFlags then [''betting_restricted'', ''withdrawal_restricted'']
                        else []),
                     r_verificationStatus =
                       (if u_status u = ''blocked'' then ''rejected'' else ''verified''),
                     r_fraudWarnings = fraud_attempts userFlags,
                     r_lastUpdated = now\<rparr>),
               s)))"

definition account_status :: "nat \<Rightarrow> string option \<Rightarrow> server \<Rightarrow> response \<times> server" where
  "account_status now authHeader s =
     (case authenticateToken s authHeader of
        Inl r \<Rightarrow> (r, s)
      | Inr userId \<Rightarrow> account_status_as now userId s)"

subsection \<open>The router\<close>

datatype request =
    Register register_clock body
  | Login login_clock body
  | PlaceBet bet_clock "string option" body
  | BetHistory "string option"
  | AccountStatus nat "string option"

fun handle :: "builtins \<Rightarrow> request \<Rightarrow> server \<Rightarrow> response \<times> server" where
  "handle B (Register clk userData) s = register B clk userData s"
| "handle B (Login clk b) s = login B clk b s"
| "handle B (PlaceBet clk authHeader betData) s = place_bet B clk authHeader betData s"
| "handle B (BetHistory authHeader) s = bet_history authHeader s"
| "handle B (AccountStatus now authHeader) s = account_status now authHeader s"

text \<open>The stores after a series of requests, served one at a time in order.\<close>

fun serve :: "builtins \<Rightarrow> request list \<Rightarrow> server \<Rightarrow> server" where
  "serve B [] s = s"
| "serve B (r # rs) s = serve B rs (snd (handle B r s))"

fun is_registration :: "request \<Rightarrow> bool" where
  "is_registration (Register clk userData) = True"
| "is_registration _ = False"

subsection \<open>The rule engine as the specification words it\<close>

text \<open>
  Section 4.1 of the specification lists five rules in a fixed order, each with a category
  and a reason, and says that the verdict is that of the last rule whose condition holds.
  The table below is that list; its conditions are those of the source.
\<close>

definition fraud_rules :: "builtins \<Rightarrow> nat \<Rightarrow> body \<Rightarrow> (bool \<times> string \<times> string) list" where
  "fraud_rules B now betData =
     [(amount_not_positive B betData, ''negative-amount'', ''Fraud detected: Invalid bet amount''),
      (odds_too_high B betData, ''odds-manipulation'',
         ''Fraud detected: Suspicious odds manipulation''),
      (matchId_includes_altered (betData ''matchId'') = Some True, ''match-alteration'',
         ''Fraud detected: Match ID tampering detected''),
      (timestamp_too_old B now betData, ''timestamp-manipulation'',
         ''Fraud detected: Timestamp manipulation detected''),
      (has_unauthorized_field betData, ''request-tampering'',
         ''Fraud detected: Unauthorized request fields'')]"

definition matching_rules :: "builtins \<Rightarrow> nat \<Rightarrow> body \<Rightarrow> (bool \<times> string \<times> string) list" where
  "matching_rules B now betData = filter fst (fraud_rules B now betData)"

definition last_rule_verdict :: "(bool \<times> string \<times> string) list \<Rightarrow> verdict" where
  "last_rule_verdict rs =
     (case rs of
        [] \<Rightarrow> \<lparr>isFraudulent = False, fraudReason = [], fraudType = []\<rparr>
      | _ \<Rightarrow> \<lparr>isFraudulent = True, fraudReason = snd (snd (last rs)),
              fraudType = fst (snd (last rs))\<rparr>)"

text \<open>
  The verdict a call of bet placement reaches: none when the request ends at the
  authentication middleware, at the required-field check or in a TypeError.
\<close>

definition verdict_reached ::
  "builtins \<Rightarrow> bet_clock \<Rightarrow> string option \<Rightarrow> body \<Rightarrow> server \<Rightarrow> verdict option" where
  "verdict_reached B clk authHeader betData s =
     (case authenticateToken s authHeader of
        Inl r \<Rightarrow> None
      | Inr userId \<Rightarrow>
          (if has_required betData then detect_fraud B (at_check clk) betData else None))"

definition judged_fraudulent ::
  "builtins \<Rightarrow> bet_clock \<Rightarrow> string option \<Rightarrow> body \<Rightarrow> server \<Rightarrow> bool" where
  "judged_fraudulent B clk authHeader betData s =
     (case verdict_reached B clk authHeader betData s of
        None \<Rightarrow> False | Some v \<Rightarrow> isFraudulent v)"

definition judged_legitimate ::
  "builtins \<Rightarrow> bet_clock \<Rightarrow> string option \<Rightarrow> body \<Rightarrow> server \<Rightarrow> bool" where
  "judged_legitimate B clk authHeader betData s =
     (case verdict_reached B clk authHeader betData s of
        None \<Rightarrow> False | Some v \<Rightarrow> \<not> isFraudulent v)"

subsection \<open>Sample requests and stores\<close>

text \<open>
  The requests of tests/unit/mockServer/server.test.js and stores as registration leaves
  them, for the worked examples. \<open>sample_engine\<close> reads a sign, digits and a fraction, as
  \<open>parseFloat\<close> does on such literals, and encodes base64. The samples hold no other
  numeric string and no timestamp, and every account id in them is a string, so that no
  example parses a date or prints a number.
\<close>

definition obj :: "(string \<times> jsval) list \<Rightarrow> body" where
  "obj kvs = map_of kvs"

definition is_digit :: "char \<Rightarrow> bool" where
  "is_digit c = (c \<in> set ''0123456789'')"

definition digit_value :: "char \<Rightarrow> nat" where
  "digit_value c = of_char c - 48"

definition digits_value :: "string \<Rightarrow> nat" where
  "digits_value ds = foldl (\<lambda>a c. 10 * a + digit_value c) 0 ds"

definition decimal_literal :: "string \<Rightarrow> jsnum" where
  "decimal_literal s =
     (let t = dropWhile (\<lambda>c. c = CHR '' '') s;
          neg = (t \<noteq> [] \<and> hd t = CHR ''-'');
          u = (if t \<noteq> [] \<and> (hd t = CHR ''-'' \<or> hd t = CHR ''+'') then tl t else t);
          ip = takeWhile is_digit u;
          r = dropWhile is_digit u;
          fp = (if r \<noteq> [] \<and> hd r = CHR ''.'' then takeWhile is_digit (tl r) else [])
      in if ip = [] \<and> fp = [] then NaN
         else Fnum ((if neg then - 1 else 1) *
                (of_nat (digits_value ip) + of_nat (digits_value fp) / 10 ^ length fp)))"

definition base64_alphabet :: string where
  "base64_alphabet = ''ABCDEFGHIJKLMNOPQRSTUVWXYZabcdefghijklmnopqrstuvwxyz0123456789+/''"

fun base64_encode :: "string \<Rightarrow> string" where
  "base64_encode (a # b # c # rest) =
     (let n = (of_char a * 256 + of_char b) * 256 + of_char c :: nat
      in [base64_alphabet ! (n div 262144), base64_alphabet ! (n div 4096 mod 64),
          base64_alphabet ! (n div 64 mod 64), base64_alphabet ! (n mod 64)]
         @ base64_encode rest)"
| "base64_encode [a, b] =
     (let n = (of_char a * 256 + of_char b) * 4 :: nat
      in [base64_alphabet ! (n div 4096), base64_alphabet ! (n div 64 mod 64),
          base64_alphabet ! (n mod 64), CHR ''=''])"
| "base64_encode [a] =
     (let n = of_char a * 16 :: nat
      in [base64_alphabet ! (n div 64), base64_alphabet ! (n mod 64), CHR ''='', CHR ''=''])"
| "base64_encode [] = []"

declare base64_encode.simps [simp del]

definition sample_engine :: builtins where
  "sample_engine =
     \<lparr>parseFloat_str = decimal_literal, Date_parse = (\<lambda>s. None),
      Number_toString = (\<lambda>n. ''NaN''), base64 = base64_encode\<rparr>"

definition bearer :: "string \<Rightarrow> string option" where
  "bearer t = Some (''Bearer '' @ t)"

definition betuser_registration :: body where
  "betuser_registration =
     obj [(''username'', JStr ''betuser''), (''email'', JStr ''bet@example.com''),
          (''password'', JStr ''BetPass123'')]"

definition betuser_clock :: register_clock where
  "betuser_clock =
     \<lparr>at_userId = 1700000000000, at_user_created = 1700000000000, at_reg_token = 1700000000001,
      at_reg_session = 1700000000001\<rparr>"

definition betuser :: user where
  "betuser =
     \<lparr>u_id = JStr ''1700000000000'', u_data = betuser_registration,
      u_createdAt = 1700000000000, u_status = ''active''\<rparr>"

definition historyuser_registration :: body where
  "historyuser_registration =
     obj [(''username'', JStr ''historyuser''), (''email'', JStr ''history@example.com''),
          (''password'', JStr ''HistoryPass123'')]"

definition historyuser_clock :: register_clock where
  "historyuser_clock =
     \<lparr>at_userId = 1700000000100, at_user_created = 1700000000100, at_reg_token = 1700000000101,
      at_reg_session = 1700000000101\<rparr>"

definition historyuser :: user where
  "historyuser =
     \<lparr>u_id = JStr ''1700000000100'', u_data = historyuser_registration,
      u_createdAt = 1700000000100, u_status = ''active''\<rparr>"

text \<open>The tokens are the base64 of \<open>1700000000000:1700000000001\<close> and of \<open>1700000000100:1700000000101\<close>.\<close>

definition betuser_token :: string where
  "betuser_token = ''MTcwMDAwMDAwMDAwMDoxNzAwMDAwMDAwMDAx''"

definition historyuser_token :: string where
  "historyuser_token = ''MTcwMDAwMDAwMDEwMDoxNzAwMDAwMDAwMTAx''"

definition betuser_session :: session where
  "betuser_session = \<lparr>s_user_id = JStr ''1700000000000'', s_createdAt = 1700000000001\<rparr>"

definition historyuser_session :: session where
  "historyuser_session = \<lparr>s_user_id = JStr ''1700000000100'', s_createdAt = 1700000000101\<rparr>"

definition two_users :: server where
  "two_users =
     \<lparr>users = [(JStr ''1700000000000'', betuser), (JStr ''1700000000100'', historyuser)],
      bets = [],
      sessions = [(betuser_token, betuser_session), (historyuser_token, historyuser_session)],
      accountFlags = [(JStr ''1700000000000'', []), (JStr ''1700000000100'', [])]\<rparr>"

definition sample_clock :: bet_clock where
  "sample_clock =
     \<lparr>at_check = 1700000005000, at_flag = 1700000005001, at_betId = 1700000005002,
      at_bet_created = 1700000005003\<rparr>"

definition legitimate_bet :: body where
  "legitimate_bet =
     obj [(''matchId'', JStr ''match-123''), (''amount'', JNum (Fnum 50)),
          (''odds'', JStr ''2.5''), (''selection'', JStr ''home''),
          (''betType'', JStr ''single'')]"

definition negative_amount_bet :: body where
  "negative_amount_bet =
     obj [(''matchId'', JStr ''match-123''), (''amount'', JNum (Fnum (- 50))),
          (''odds'', JStr ''2.5''), (''selection'', JStr ''home'')]"


definition zero_amount_bet :: body where
  "zero_amount_bet =
     obj [(''matchId'', JStr ''match-123''), (''amount'', JNum (Fnum 0)),
          (''odds'', JStr ''2.5''), (''selection'', JStr ''home'')]"

text \<open>The account \<open>betuser\<close> after two, and after three, rejected bets.\<close>

definition rejected_attempt :: flag where
  "rejected_attempt =
     \<lparr>f_type = ''fraud_attempt'', f_reason = ''Fraud detected: Invalid bet amount'',
      f_timestamp = 1700000002000, f_data = negative_amount_bet\<rparr>"

definition two_strikes :: server where
  "two_strikes =
     two_users\<lparr>accountFlags :=
       [(JStr ''1700000000000'', [rejected_attempt, rejected_attempt]),
        (JStr ''1700000000100'', [])]\<rparr>"

definition blocked_betuser :: server where
  "blocked_betuser =
     two_users\<lparr>users := [(JStr ''1700000000000'', betuser\<lparr>u_status := ''blocked''\<rparr>),
                         (JStr ''1700000000100'', historyuser)],
       accountFlags :=
         [(JStr ''1700000000000'', [rejected_attempt, rejected_attempt, rejected_attempt]),
          (JStr ''1700000000100'', [])]\<rparr>"

text \<open>The duplicate-username test: a registered account and two further requests.\<close>

definition first_registration :: body where
  "first_registration =
     obj [(''username'', JStr ''duplicateuser''), (''email'', JStr ''first@example.com''),
          (''password'', JStr ''password123'')]"

definition first_clock :: register_clock where
  "first_clock =
     \<lparr>at_userId = 1700000000200, at_user_created = 1700000000200, at_reg_token = 1700000000201,
      at_reg_session = 1700000000201\<rparr>"

definition duplicateuser :: user where
  "duplicateuser =
     \<lparr>u_id = JStr ''1700000000200'', u_data = first_registration,
      u_createdAt = 1700000000200, u_status = ''active''\<rparr>"

text \<open>The token is the base64 of \<open>1700000000200:1700000000201\<close>.\<close>

definition one_registered :: server where
  "one_registered =
     \<lparr>users = [(JStr ''1700000000200'', duplicateuser)], bets = [],
      sessions = [(''MTcwMDAwMDAwMDIwMDoxNzAwMDAwMDAwMjAx'',
                   \<lparr>s_user_id = JStr ''1700000000200'', s_createdAt = 1700000000201\<rparr>)],
      accountFlags = [(JStr ''1700000000200'', [])]\<rparr>"

definition second_registration :: body where
  "second_registration =
     obj [(''username'', JStr ''duplicateuser''), (''email'', JStr ''second@example.com''),
          (''password'', JStr ''password456'')]"

definition second_without_password :: body where
  "second_without_password =
     obj [(''username'', JStr ''duplicateuser''), (''email'', JStr ''second@example.com'')]"

definition later_clock :: register_clock where
  "later_clock =
     \<lparr>at_userId = 1700000003000, at_user_created = 1700000003000, at_reg_token = 1700000003001,
      at_reg_session = 1700000003001\<rparr>"

text \<open>A bet request without a selection, and one that names another account as its owner.\<close>

definition no_selection_bet :: body where
  "no_selection_bet =
     obj [(''matchId'', JStr ''match-123''), (''amount'', JNum (Fnum 50)),
          (''odds'', JStr ''2.5'')]"

definition misattributed_bet :: body where
  "misattributed_bet =
     obj [(''matchId'', JStr ''match-456''), (''amount'', JNum (Fnum 25)),
          (''odds'', JStr ''1.8''), (''selection'', JStr ''away''),
          (''userId'', JStr ''1700000000100'')]"


text \<open>A second legitimate bet, placed within the millisecond of the first.\<close>

definition second_legitimate_bet :: body where
  "second_legitimate_bet =
     obj [(''matchId'', JStr ''match-456''), (''amount'', JNum (Fnum 25)),
          (''odds'', JStr ''1.8''), (''selection'', JStr ''away'')]"

text \<open>
  A registration whose body has a field \<open>id\<close>, and the stores after it. The token is the
  base64 of \<open>1700000000300:1700000000301\<close>.
\<close>

definition registration_with_id :: body where
  "registration_with_id =
     obj [(''username'', JStr ''statususer''), (''email'', JStr ''status@example.com''),
          (''password'', JStr ''StatusPass123''), (''id'', JStr ''custom'')]"

definition statususer_clock :: register_clock where
  "statususer_clock =
     \<lparr>at_userId = 1700000000300, at_user_created = 1700000000300, at_reg_token = 1700000000301,
      at_reg_session = 1700000000301\<rparr>"

definition statususer_token :: string where
  "statususer_token = ''MTcwMDAwMDAwMDMwMDoxNzAwMDAwMDAwMzAx''"

definition statususer :: user where
  "statususer =
     \<lparr>u_id = JStr ''custom'', u_data = registration_with_id,
      u_createdAt = 1700000000300, u_status = ''active''\<rparr>"

definition statususer_registered :: server where
  "statususer_registered =
     \<lparr>users = [(JStr ''1700000000300'', statususer)], bets = [],
      sessions = [(statususer_token, \<lparr>s_user_id = JStr ''custom'', s_createdAt = 1700000000301\<rparr>)],
      accountFlags = [(JStr ''1700000000300'', [])]\<rparr>"

definition statususer_credentials :: body where
  "statususer_credentials =
     obj [(''username'', JStr ''statususer''), (''password'', JStr ''StatusPass123'')]"

definition statususer_login_clock :: login_clock where
  "statususer_login_clock = \<lparr>at_login_token = 1700000006000, at_login_session = 1700000006000\<rparr>"

text \<open>One rejected bet of \<open>statususer\<close>, and the stores after three of them.\<close>

definition rejected_once :: "server \<Rightarrow> server" where
  "rejected_once s =
     snd (place_bet sample_engine sample_clock (bearer statususer_token) negative_amount_bet s)"

definition statususer_after_three :: server where
  "statususer_after_three = rejected_once (rejected_once (rejected_once statususer_registered))"

section \<open>Properties\<close>

subsection \<open>The stores\<close>

lemma mget_mset_same: "mget (mset k v m) k = Some v"
  by (induction m) auto

lemma mget_mset_other: "k' \<noteq> k \<Longrightarrow> mget (mset k v m) k' = mget m k'"
  by (induction m) auto

lemma mset_same_value: "mget m k = Some v \<Longrightarrow> mset k v m = m"
  by (induction m) (auto split: if_splits)

lemma length_mset_fresh: "mget m k = None \<Longrightarrow> length (mset k v m) = Suc (length m)"
  by (induction m) (auto split: if_splits)

lemma mset_member: "(k, v) \<in> set (mset k v m)"
  by (induction m) auto

lemma mvalues_mset_member: "v \<in> set (mvalues (mset k v m))"
  using mset_member [of k v m] by (force simp: mvalues_def)

subsection \<open>The fraud detection block\<close>

lemma last_rule_verdict_five:
  "last_rule_verdict (filter fst [(a, t1, r1), (b, t2, r2), (c, t3, r3), (d, t4, r4), (e, t5, r5)])
     = (if e then \<lparr>isFraudulent = True, fraudReason = r5, fraudType = t5\<rparr>
        else if d then \<lparr>isFraudulent = True, fraudReason = r4, fraudType = t4\<rparr>
        else if c then \<lparr>isFraudulent = True, fraudReason = r3, fraudType = t3\<rparr>
        else if b then \<lparr>isFraudulent = True, fraudReason = r2, fraudType = t2\<rparr>
        else if a then \<lparr>isFraudulent = True, fraudReason = r1, fraudType = t1\<rparr>
        else \<lparr>isFraudulent = False, fraudReason = [], fraudType = []\<rparr>)"
  by (simp add: last_rule_verdict_def)

lemma detect_fraud_last_rule:
  assumes "betData ''matchId'' = Some (JStr m)"
  shows "detect_fraud B now betData = Some (last_rule_verdict (matching_rules B now betData))"
  unfolding matching_rules_def fraud_rules_def last_rule_verdict_five
  using assms by (simp add: detect_fraud_def Let_def)

subsection \<open>Rejecting and accepting a bet\<close>

lemma reject_bet_response:
  "fst (reject_bet clk userId betData v s)
     = Response 400 (FraudBody (fraudReason v) (fraudType v) (fraudReason v))"
  by (simp add: reject_bet_def Let_def)

lemma reject_bet_bets: "bets (snd (reject_bet clk userId betData v s)) = bets s"
  by (simp add: reject_bet_def Let_def split: option.splits)

lemma reject_bet_sessions: "sessions (snd (reject_bet clk userId betData v s)) = sessions s"
  by (simp add: reject_bet_def Let_def split: option.splits)

lemma reject_bet_flags:
  "flags_of (snd (reject_bet clk userId betData v s)) userId
     = flags_of s userId @ [\<lparr>f_type = ''fraud_attempt'', f_reason = fraudReason v,
                             f_timestamp = at_flag clk, f_data = betData\<rparr>]"
  by (simp add: reject_bet_def Let_def flags_of_def mget_mset_same split: option.splits)

lemma reject_bet_changes_flags:
  "accountFlags (snd (reject_bet clk userId betData v s)) \<noteq> accountFlags s"
proof
  assume "accountFlags (snd (reject_bet clk userId betData v s)) = accountFlags s"
  then have "flags_of (snd (reject_bet clk userId betData v s)) userId = flags_of s userId"
    by (simp add: flags_of_def)
  then show False by (simp add: reject_bet_flags)
qed

lemma reject_bet_blocks:
  assumes "mget (users s) userId = Some u"
    and "3 \<le> fraud_attempts (flags_of (snd (reject_bet clk userId betData v s)) userId)"
  shows "\<exists>u'. mget (users (snd (reject_bet clk userId betData v s))) userId = Some u'
               \<and> u_status u' = ''blocked''"
  using assms
  by (simp add: reject_bet_flags) (simp add: reject_bet_def Let_def mget_mset_same)

lemma reject_bet_keeps_blocked:
  assumes "mget (users s) k = Some u" and "u_status u = ''blocked''"
  shows "\<exists>u'. mget (users (snd (reject_bet clk userId betData v s))) k = Some u'
               \<and> u_status u' = ''blocked''"
proof (cases "k = userId")
  case True
  with assms show ?thesis by (simp add: reject_bet_def Let_def mget_mset_same)
next
  case False
  with assms show ?thesis
    by (simp add: reject_bet_def Let_def mget_mset_other split: option.splits)
qed

lemma reject_bet_idempotent:
  assumes "mget (users s) userId = Some u" and "u_status u = ''blocked''"
  shows "users (snd (reject_bet clk userId betData v s)) = users s"
proof -
  have "u\<lparr>u_status := ''blocked''\<rparr> = u" using assms(2) by simp
  with assms(1) show ?thesis by (simp add: reject_bet_def Let_def mset_same_value)
qed

lemma accept_bet_users: "users (snd (accept_bet clk userId betData s)) = users s"
  by (simp add: accept_bet_def Let_def split: jsval.splits)

lemma accept_bet_flags: "accountFlags (snd (accept_bet clk userId betData s)) = accountFlags s"
  by (simp add: accept_bet_def Let_def split: jsval.splits)

lemma accept_bet_sessions: "sessions (snd (accept_bet clk userId betData s)) = sessions s"
  by (simp add: accept_bet_def Let_def split: jsval.splits)

lemma place_bet_as_users_blocked:
  assumes "mget (users s) k = Some u" and "u_status u = ''blocked''"
  shows "\<exists>u'. mget (users (snd (place_bet_as B clk userId betData s))) k = Some u'
               \<and> u_status u' = ''blocked''"
  using assms reject_bet_keeps_blocked [OF assms]
  by (simp add: place_bet_as_def accept_bet_users split: option.splits)

lemma last_rule_verdict_fraud:
  "rs \<noteq> [] \<Longrightarrow> last_rule_verdict rs
     = \<lparr>isFraudulent = True, fraudReason = snd (snd (last rs)), fraudType = fst (snd (last rs))\<rparr>"
  by (cases rs) (simp_all add: last_rule_verdict_def)

lemma place_bet_as_fraud:
  assumes "has_required betData" and "detect_fraud B (at_check clk) betData = Some v"
    and "isFraudulent v"
  shows "place_bet_as B clk userId betData s = reject_bet clk userId betData v s"
  using assms by (simp add: place_bet_as_def)

lemma place_bet_as_legit:
  assumes "has_required betData" and "detect_fraud B (at_check clk) betData = Some v"
    and "\<not> isFraudulent v"
  shows "place_bet_as B clk userId betData s = accept_bet clk userId betData s"
  using assms by (simp add: place_bet_as_def)

lemma place_bet_authenticated:
  assumes "bearer_token authHeader = Some token" and "mget (sessions s) token = Some sess"
  shows "place_bet B clk authHeader betData s = place_bet_as B clk (s_user_id sess) betData s"
  using assms by (simp add: place_bet_def authenticateToken_def)

subsection \<open>One call of bet placement\<close>

lemma accept_bet_stores_one_bet:
  "\<exists>betId b. accept_bet clk (JStr uid) betData s
     = (Response 201
          (BetBody ''Bet placed successfully'' (b_id b)
             \<lparr>bv_id = b_id b, bv_matchId = betData ''matchId'',
              bv_selection = betData ''selection'', bv_odds = betData ''odds'',
              bv_amount = betData ''amount'', bv_status = ''pending''\<rparr>),
        s\<lparr>bets := mset betId b (bets s)\<rparr>)
     \<and> b_status b = ''pending'' \<and> b_data b = betData
     \<and> b_userId b = overridable betData ''userId'' (JStr uid)
     \<and> b_createdAt b = at_bet_created clk"
proof -
  define betId where "betId = ''BET-'' @ dec (at_betId clk) @ ''-'' @ take 5 uid"
  define b where
    "b = \<lparr>b_id = overridable betData ''id'' (JStr betId),
           b_userId = overridable betData ''userId'' (JStr uid),
           b_data = betData, b_status = ''pending'', b_createdAt = at_bet_created clk\<rparr>"
  have "accept_bet clk (JStr uid) betData s
     = (Response 201
          (BetBody ''Bet placed successfully'' (b_id b)
             \<lparr>bv_id = b_id b, bv_matchId = betData ''matchId'',
              bv_selection = betData ''selection'', bv_odds = betData ''odds'',
              bv_amount = betData ''amount'', bv_status = ''pending''\<rparr>),
        s\<lparr>bets := mset betId b (bets s)\<rparr>)"
    by (simp add: accept_bet_def Let_def b_def betId_def)
  moreover have "b_status b = ''pending''" "b_data b = betData"
    "b_userId b = overridable betData ''userId'' (JStr uid)"
    "b_createdAt b = at_bet_created clk"
    by (simp_all add: b_def)
  ultimately show ?thesis by blast
qed

lemma accept_bet_bets_other_id:
  "(\<forall>uid. userId \<noteq> JStr uid) \<Longrightarrow> accept_bet clk userId betData s = (Response 500 UncaughtTypeError, s)"
  by (cases userId) (simp_all add: accept_bet_def)

lemma place_bet_unjudged:
  assumes "verdict_reached B clk authHeader betData s = None"
  shows "snd (place_bet B clk authHeader betData s) = s"
  using assms
  by (auto simp: verdict_reached_def place_bet_def place_bet_as_def
      split: sum.splits if_splits)

lemma place_bet_judged:
  assumes "verdict_reached B clk authHeader betData s = Some v"
  shows "\<exists>userId. authenticateToken s authHeader = Inr userId
           \<and> place_bet B clk authHeader betData s
               = (if isFraudulent v then reject_bet clk userId betData v s
                  else accept_bet clk userId betData s)"
  using assms
  by (auto simp: verdict_reached_def place_bet_def place_bet_as_def
      split: sum.splits if_splits)

subsection \<open>Blocking\<close>

lemma login_users: "users (snd (login B clk b s)) = users s"
  by (simp add: login_def Let_def split: option.splits)

lemma handle_keeps_blocked:
  assumes "\<not> is_registration r" and "mget (users s) k = Some u" and "u_status u = ''blocked''"
  shows "\<exists>u'. mget (users (snd (handle B r s))) k = Some u' \<and> u_status u' = ''blocked''"
proof (cases r)
  case (Register clk userData)
  with assms(1) show ?thesis by simp
next
  case (Login clk b)
  with assms(2,3) show ?thesis by (simp add: login_users)
next
  case (PlaceBet clk authHeader betData)
  show ?thesis
  proof (cases "authenticateToken s authHeader")
    case (Inl a)
    with PlaceBet assms(2,3) show ?thesis by (simp add: place_bet_def)
  next
    case (Inr userId)
    with PlaceBet place_bet_as_users_blocked [OF assms(2,3)] show ?thesis
      by (simp add: place_bet_def)
  qed
next
  case (BetHistory authHeader)
  with assms(2,3) show ?thesis
    by (simp add: bet_history_def bet_history_as_def split: sum.splits)
next
  case (AccountStatus now authHeader)
  with assms(2,3) show ?thesis
    by (simp add: account_status_def account_status_as_def Let_def split: sum.splits option.splits)
qed

lemma serve_keeps_blocked:
  assumes "list_all (\<lambda>r. \<not> is_registration r) rs"
    and "mget (users s) k = Some u" and "u_status u = ''blocked''"
  shows "\<exists>u'. mget (users (serve B rs s)) k = Some u' \<and> u_status u' = ''blocked''"
  using assms
proof (induction rs arbitrary: s u)
  case Nil
  then show ?case by simp
next
  case (Cons r rs)
  from Cons.prems(1) have r: "\<not> is_registration r"
    and rs: "list_all (\<lambda>r. \<not> is_registration r) rs" by simp_all
  from handle_keeps_blocked [OF r Cons.prems(2,3)]
  obtain u' where "mget (users (snd (handle B r s))) k = Some u'" "u_status u' = ''blocked''"
    by blast
  from Cons.IH [OF rs this] show ?case by simp
qed

lemma fraudulent_placement:
  assumes "bearer_token authHeader = Some token" and "mget (sessions s) token = Some sess"
    and "judged_fraudulent B clk authHeader betData s"
  shows "\<exists>v. place_bet B clk authHeader betData s
                = reject_bet clk (s_user_id sess) betData v s"
proof -
  from assms(3) obtain v where v: "verdict_reached B clk authHeader betData s = Some v"
    "isFraudulent v"
    by (auto simp: judged_fraudulent_def split: option.splits)
  from assms(1,2) have "authenticateToken s authHeader = Inr (s_user_id sess)"
    by (simp add: authenticateToken_def)
  with place_bet_judged [OF v(1)] v(2) show ?thesis by auto
qed

lemma third_attempt_blocks:
  assumes "bearer_token authHeader = Some token" and "mget (sessions s) token = Some sess"
    and "mget (users s) (s_user_id sess) = Some u"
    and "judged_fraudulent B clk authHeader betData s"
    and "3 \<le> fraud_attempts (flags_of (snd (place_bet B clk authHeader betData s)) (s_user_id sess))"
  shows "\<exists>u'. mget (users (snd (place_bet B clk authHeader betData s))) (s_user_id sess) = Some u'
               \<and> u_status u' = ''blocked''"
proof -
  from fraudulent_placement [OF assms(1,2,4)] obtain v where
    p: "place_bet B clk authHeader betData s = reject_bet clk (s_user_id sess) betData v s"
    by blast
  from assms(5) show ?thesis unfolding p by (rule reject_bet_blocks [OF assms(3)])
qed

lemma blocked_attempt_changes_no_account:
  assumes "bearer_token authHeader = Some token" and "mget (sessions s) token = Some sess"
    and "mget (users s) (s_user_id sess) = Some u" and "u_status u = ''blocked''"
    and "judged_fraudulent B clk authHeader betData s"
  shows "users (snd (place_bet B clk authHeader betData s)) = users s"
proof -
  from fraudulent_placement [OF assms(1,2,5)] obtain v where
    p: "place_bet B clk authHeader betData s = reject_bet clk (s_user_id sess) betData v s"
    by blast
  show ?thesis unfolding p by (rule reject_bet_idempotent [OF assms(3,4)])
qed

subsection \<open>Registration\<close>

lemma truthy_not_NaN: "truthy x \<Longrightarrow> x \<noteq> Some (JNum NaN)"
  by auto

lemma register_conflict:
  assumes "truthy (userData ''username'')" and "truthy (userData ''email'')"
    and "truthy (userData ''password'')" and "u \<in> set (mvalues (users s))"
    and "u_data u ''username'' = userData ''username'' \<or> u_data u ''email'' = userData ''email''"
  shows "register B clk userData s
           = (Response 409 (ErrorBody ''Username or email already exists''), s)"
proof -
  have "same_identity userData u"
    using assms(5) truthy_not_NaN [OF assms(1)] truthy_not_NaN [OF assms(2)]
    by (auto simp: same_identity_def strict_eq_def)
  with assms(4) have "list_ex (same_identity userData) (mvalues (users s))"
    by (auto simp: list_ex_iff)
  with assms(1-3) show ?thesis by (simp add: register_def)
qed

lemma register_created:
  assumes "fst (register B clk userData s) = Response 201 p"
  shows "truthy (userData ''username'')
         \<and> (\<exists>u \<in> set (mvalues (users (snd (register B clk userData s)))). u_data u = userData)"
proof -
  from assms have t: "truthy (userData ''username'')"
    by (auto simp: register_def Let_def split: if_splits)
  from assms have "users (snd (register B clk userData s))
      = mset (JStr (dec (at_userId clk)))
          \<lparr>u_id = overridable userData ''id'' (JStr (dec (at_userId clk))), u_data = userData,
           u_createdAt = at_user_created clk, u_status = ''active''\<rparr> (users s)"
    by (auto simp: register_def Let_def split: if_splits)
  with mvalues_mset_member [of "\<lparr>u_id = overridable userData ''id'' (JStr (dec (at_userId clk))),
           u_data = userData, u_createdAt = at_user_created clk, u_status = ''active''\<rparr>"
           "JStr (dec (at_userId clk))" "users s"] t
  show ?thesis by force
qed

subsection \<open>The bet history\<close>

lemma user_bets_member:
  "b \<in> set (user_bets s userId)
     \<longleftrightarrow> b \<in> set (mvalues (bets s)) \<and> strict_eq (Some (b_userId b)) (Some userId)"
  by (auto simp: user_bets_def)

lemma user_bets_newest_first:
  "sorted_wrt (\<lambda>a b. b_createdAt b \<le> b_createdAt a) (user_bets s userId)"
proof -
  have "sorted (map (\<lambda>b. - int (b_createdAt b)) (user_bets s userId))"
    by (simp add: user_bets_def)
  then show ?thesis by (simp add: sorted_map)
qed

subsection \<open>The samples, evaluated\<close>

lemmas sample_engine_simps =
  sample_engine_def decimal_literal_def is_digit_def digits_value_def digit_value_def

lemmas rule_condition_defs =
  amount_not_positive_def odds_too_high_def timestamp_too_old_def has_unauthorized_field_def

lemma betuser_bearer_token: "bearer_token (bearer betuser_token) = Some betuser_token"
  by (simp add: bearer_token_def bearer_def betuser_token_def)

lemma historyuser_bearer_token: "bearer_token (bearer historyuser_token) = Some historyuser_token"
  by (simp add: bearer_token_def bearer_def historyuser_token_def)

lemma two_users_betuser_session: "mget (sessions two_users) betuser_token = Some betuser_session"
  by (simp add: two_users_def)

lemma two_users_historyuser_session:
  "mget (sessions two_users) historyuser_token = Some historyuser_session"
  by (simp add: two_users_def betuser_token_def historyuser_token_def)


lemma negative_amount_rules:
  "matching_rules sample_engine now negative_amount_bet
     = [(True, ''negative-amount'', ''Fraud detected: Invalid bet amount'')]"
  by (simp add: matching_rules_def fraud_rules_def negative_amount_bet_def obj_def
      rule_condition_defs sample_engine_simps)

lemma legitimate_rules: "matching_rules sample_engine now legitimate_bet = []"
  by (simp add: matching_rules_def fraud_rules_def legitimate_bet_def obj_def
      rule_condition_defs sample_engine_simps)

lemma betuser_authenticated:
  "authenticateToken two_users (bearer betuser_token) = Inr (JStr ''1700000000000'')"
  by (simp add: authenticateToken_def betuser_bearer_token two_users_betuser_session
      betuser_session_def)

lemma legitimate_bet_required: "has_required legitimate_bet"
  by (simp add: has_required_def legitimate_bet_def obj_def)

lemma negative_amount_bet_required: "has_required negative_amount_bet"
  by (simp add: has_required_def negative_amount_bet_def obj_def)

lemma legitimate_bet_verdict:
  "detect_fraud sample_engine now legitimate_bet
     = Some \<lparr>isFraudulent = False, fraudReason = [], fraudType = []\<rparr>"
proof -
  have "legitimate_bet ''matchId'' = Some (JStr ''match-123'')"
    by (simp add: legitimate_bet_def obj_def)
  from detect_fraud_last_rule [of legitimate_bet "''match-123''", OF this]
  show ?thesis by (simp add: legitimate_rules last_rule_verdict_def)
qed

lemma negative_amount_bet_verdict:
  "detect_fraud sample_engine now negative_amount_bet
     = Some \<lparr>isFraudulent = True, fraudReason = ''Fraud detected: Invalid bet amount'',
             fraudType = ''negative-amount''\<rparr>"
proof -
  have "negative_amount_bet ''matchId'' = Some (JStr ''match-123'')"
    by (simp add: negative_amount_bet_def obj_def)
  from detect_fraud_last_rule [of negative_amount_bet "''match-123''", OF this]
  show ?thesis by (simp add: negative_amount_rules last_rule_verdict_def)
qed

lemma sample_betId: "dec (at_betId sample_clock) = ''1700000005002''"
  by (simp add: sample_clock_def dec.simps)

lemma two_strikes_sessions: "sessions two_strikes = sessions two_users"
  by (simp add: two_strikes_def)

lemma blocked_betuser_sessions: "sessions blocked_betuser = sessions two_users"
  by (simp add: blocked_betuser_def)

lemma two_strikes_authenticated:
  "authenticateToken two_strikes (bearer betuser_token) = Inr (JStr ''1700000000000'')"
  by (simp add: authenticateToken_def betuser_bearer_token two_strikes_sessions
      two_users_betuser_session betuser_session_def)

lemma blocked_betuser_authenticated:
  "authenticateToken blocked_betuser (bearer betuser_token) = Inr (JStr ''1700000000000'')"
  by (simp add: authenticateToken_def betuser_bearer_token blocked_betuser_sessions
      two_users_betuser_session betuser_session_def)

lemma legitimate_bet_accepted:
  "place_bet sample_engine sample_clock (bearer betuser_token) legitimate_bet two_users
     = (Response 201
          (BetBody ''Bet placed successfully'' (JStr ''BET-1700000005002-17000'')
             \<lparr>bv_id = JStr ''BET-1700000005002-17000'', bv_matchId = Some (JStr ''match-123''),
              bv_selection = Some (JStr ''home''), bv_odds = Some (JStr ''2.5''),
              bv_amount = Some (JNum (Fnum 50)), bv_status = ''pending''\<rparr>),
        two_users\<lparr>bets :=
          [(''BET-1700000005002-17000'',
            \<lparr>b_id = JStr ''BET-1700000005002-17000'', b_userId = JStr ''1700000000000'',
             b_data = legitimate_bet, b_status = ''pending'', b_createdAt = 1700000005003\<rparr>)]\<rparr>)"
  apply (simp add: place_bet_def betuser_authenticated place_bet_as_def legitimate_bet_required
      legitimate_bet_verdict)
  apply (simp add: accept_bet_def Let_def sample_betId overridable_def)
  apply (simp add: legitimate_bet_def obj_def two_users_def sample_clock_def)
  done

lemma historyuser_authenticated_after:
  "sessions s = sessions two_users
   \<Longrightarrow> authenticateToken s (bearer historyuser_token) = Inr (JStr ''1700000000100'')"
  by (simp add: authenticateToken_def historyuser_bearer_token two_users_historyuser_session
      historyuser_session_def)

lemma betuser_authenticated_after:
  "sessions s = sessions two_users
   \<Longrightarrow> authenticateToken s (bearer betuser_token) = Inr (JStr ''1700000000000'')"
  by (simp add: authenticateToken_def betuser_bearer_token two_users_betuser_session
      betuser_session_def)

lemma misattributed_bet_required: "has_required misattributed_bet"
  by (simp add: has_required_def misattributed_bet_def obj_def)

lemma misattributed_bet_verdict:
  "detect_fraud sample_engine now misattributed_bet
     = Some \<lparr>isFraudulent = False, fraudReason = [], fraudType = []\<rparr>"
proof -
  have m: "misattributed_bet ''matchId'' = Some (JStr ''match-456'')"
    by (simp add: misattributed_bet_def obj_def)
  have "matching_rules sample_engine now misattributed_bet = []"
    by (simp add: matching_rules_def fraud_rules_def misattributed_bet_def obj_def
        rule_condition_defs sample_engine_simps)
  with detect_fraud_last_rule [of misattributed_bet "''match-456''", OF m]
  show ?thesis by (simp add: last_rule_verdict_def)
qed

lemma misattributed_bet_accepted:
  "place_bet sample_engine sample_clock (bearer betuser_token) misattributed_bet two_users
     = (Response 201
          (BetBody ''Bet placed successfully'' (JStr ''BET-1700000005002-17000'')
             \<lparr>bv_id = JStr ''BET-1700000005002-17000'', bv_matchId = Some (JStr ''match-456''),
              bv_selection = Some (JStr ''away''), bv_odds = Some (JStr ''1.8''),
              bv_amount = Some (JNum (Fnum 25)), bv_status = ''pending''\<rparr>),
        two_users\<lparr>bets :=
          [(''BET-1700000005002-17000'',
            \<lparr>b_id = JStr ''BET-1700000005002-17000'', b_userId = JStr ''1700000000100'',
             b_data = misattributed_bet, b_status = ''pending'',
             b_createdAt = 1700000005003\<rparr>)]\<rparr>)"
  apply (simp add: place_bet_def betuser_authenticated place_bet_as_def misattributed_bet_required
      misattributed_bet_verdict)
  apply (simp add: accept_bet_def Let_def sample_betId overridable_def)
  apply (simp add: misattributed_bet_def obj_def two_users_def sample_clock_def)
  done

lemma legitimate_bet_accepted_when_blocked:
  "place_bet sample_engine sample_clock (bearer betuser_token) legitimate_bet blocked_betuser
     = (Response 201
          (BetBody ''Bet placed successfully'' (JStr ''BET-1700000005002-17000'')
             \<lparr>bv_id = JStr ''BET-1700000005002-17000'', bv_matchId = Some (JStr ''match-123''),
              bv_selection = Some (JStr ''home''), bv_odds = Some (JStr ''2.5''),
              bv_amount = Some (JNum (Fnum 50)), bv_status = ''pending''\<rparr>),
        blocked_betuser\<lparr>bets :=
          [(''BET-1700000005002-17000'',
            \<lparr>b_id = JStr ''BET-1700000005002-17000'', b_userId = JStr ''1700000000000'',
             b_data = legitimate_bet, b_status = ''pending'', b_createdAt = 1700000005003\<rparr>)]\<rparr>)"
  apply (simp add: place_bet_def blocked_betuser_authenticated place_bet_as_def
      legitimate_bet_required legitimate_bet_verdict)
  apply (simp add: accept_bet_def Let_def sample_betId overridable_def)
  apply (simp add: legitimate_bet_def obj_def blocked_betuser_def two_users_def sample_clock_def)
  done

lemma first_token:
  "base64_encode ''1700000000200:1700000000201'' = ''MTcwMDAwMDAwMDIwMDoxNzAwMDAwMDAwMjAx''"
  by (simp add: base64_encode.simps base64_alphabet_def)

lemma betuser_token_encoded:
  "base64_encode ''1700000000000:1700000000001'' = betuser_token"
  by (simp add: base64_encode.simps base64_alphabet_def betuser_token_def)

lemma historyuser_token_encoded:
  "base64_encode ''1700000000100:1700000000101'' = historyuser_token"
  by (simp add: base64_encode.simps base64_alphabet_def historyuser_token_def)


lemma first_registration_succeeds:
  "register sample_engine first_clock first_registration empty_server
     = (Response 201
          (AuthBody ''User registered successfully'' ''MTcwMDAwMDAwMDIwMDoxNzAwMDAwMDAwMjAx''
             \<lparr>uv_id = JStr ''1700000000200'', uv_username = Some (JStr ''duplicateuser''),
              uv_email = Some (JStr ''first@example.com''), uv_status = ''active''\<rparr>),
        one_registered)"
proof -
  have d: "dec (at_userId first_clock) = ''1700000000200''"
    "dec (at_reg_token first_clock) = ''1700000000201''"
    by (simp_all add: first_clock_def dec.simps)
  have f: "first_registration ''username'' = Some (JStr ''duplicateuser'')"
    "first_registration ''email'' = Some (JStr ''first@example.com'')"
    "first_registration ''password'' = Some (JStr ''password123'')"
    "first_registration ''id'' = None"
    by (simp_all add: first_registration_def obj_def)
  show ?thesis
    apply (simp add: register_def f empty_server_def mvalues_def Let_def d overridable_def
        sample_engine_def first_token user_view_of_def)
    apply (simp add: one_registered_def duplicateuser_def first_registration_def first_clock_def)
    done
qed

lemma sample_accounts_registered:
  "snd (register sample_engine historyuser_clock historyuser_registration
          (snd (register sample_engine betuser_clock betuser_registration empty_server)))
     = two_users"
proof -
  have d: "dec (at_userId betuser_clock) = ''1700000000000''"
    "dec (at_reg_token betuser_clock) = ''1700000000001''"
    "dec (at_userId historyuser_clock) = ''1700000000100''"
    "dec (at_reg_token historyuser_clock) = ''1700000000101''"
    by (simp_all add: betuser_clock_def historyuser_clock_def dec.simps)
  have b: "betuser_registration ''username'' = Some (JStr ''betuser'')"
    "betuser_registration ''email'' = Some (JStr ''bet@example.com'')"
    "betuser_registration ''password'' = Some (JStr ''BetPass123'')"
    "betuser_registration ''id'' = None"
    by (simp_all add: betuser_registration_def obj_def)
  have h: "historyuser_registration ''username'' = Some (JStr ''historyuser'')"
    "historyuser_registration ''email'' = Some (JStr ''history@example.com'')"
    "historyuser_registration ''password'' = Some (JStr ''HistoryPass123'')"
    "historyuser_registration ''id'' = None"
    by (simp_all add: historyuser_registration_def obj_def)
  have e: "base64 sample_engine = base64_encode" by (simp add: sample_engine_def)
  have c: "at_user_created betuser_clock = 1700000000000"
    "at_reg_session betuser_clock = 1700000000001"
    "at_user_created historyuser_clock = 1700000000100"
    "at_reg_session historyuser_clock = 1700000000101"
    by (simp_all add: betuser_clock_def historyuser_clock_def)
  have one: "snd (register sample_engine betuser_clock betuser_registration empty_server)
               = \<lparr>users = [(JStr ''1700000000000'', betuser)], bets = [],
                  sessions = [(betuser_token, betuser_session)],
                  accountFlags = [(JStr ''1700000000000'', [])]\<rparr>"
    by (simp add: register_def b empty_server_def mvalues_def Let_def d c overridable_def e
        betuser_token_encoded betuser_def betuser_session_def)
  have t: "betuser_token \<noteq> historyuser_token"
    by (simp add: betuser_token_def historyuser_token_def)
  show ?thesis
    unfolding one
    by (simp add: register_def b h mvalues_def Let_def d c overridable_def e same_identity_def
        strict_eq_def betuser_def historyuser_token_encoded historyuser_def
        historyuser_session_def two_users_def t)
qed

lemma statususer_token_encoded:
  "base64_encode ''1700000000300:1700000000301'' = statususer_token"
  by (simp add: base64_encode.simps base64_alphabet_def statususer_token_def)

lemma statususer_login_token:
  "base64_encode ''custom:1700000006000'' = ''Y3VzdG9tOjE3MDAwMDAwMDYwMDA=''"
  by (simp add: base64_encode.simps base64_alphabet_def)

lemma registration_with_id_succeeds:
  "register sample_engine statususer_clock registration_with_id empty_server
     = (Response 201
          (AuthBody ''User registered successfully'' statususer_token
             \<lparr>uv_id = JStr ''custom'', uv_username = Some (JStr ''statususer''),
              uv_email = Some (JStr ''status@example.com''), uv_status = ''active''\<rparr>),
        statususer_registered)"
proof -
  have d: "dec (at_userId statususer_clock) = ''1700000000300''"
    "dec (at_reg_token statususer_clock) = ''1700000000301''"
    by (simp_all add: statususer_clock_def dec.simps)
  have c: "at_user_created statususer_clock = 1700000000300"
    "at_reg_session statususer_clock = 1700000000301"
    by (simp_all add: statususer_clock_def)
  have f: "registration_with_id ''username'' = Some (JStr ''statususer'')"
    "registration_with_id ''email'' = Some (JStr ''status@example.com'')"
    "registration_with_id ''password'' = Some (JStr ''StatusPass123'')"
    "registration_with_id ''id'' = Some (JStr ''custom'')"
    by (simp_all add: registration_with_id_def obj_def)
  have e: "base64 sample_engine = base64_encode" by (simp add: sample_engine_def)
  show ?thesis
    by (simp add: register_def f empty_server_def mvalues_def Let_def d c overridable_def e
        statususer_token_encoded user_view_of_def statususer_registered_def statususer_def)
qed

lemma statususer_bearer_token:
  "bearer_token (bearer statususer_token) = Some statususer_token"
  by (simp add: bearer_token_def bearer_def statususer_token_def)

lemma statususer_authenticated:
  "sessions s = sessions statususer_registered
   \<Longrightarrow> authenticateToken s (bearer statususer_token) = Inr (JStr ''custom'')"
  by (simp add: authenticateToken_def statususer_bearer_token statususer_registered_def)

lemma rejected_once_eq:
  assumes "sessions s = sessions statususer_registered"
  shows "place_bet sample_engine sample_clock (bearer statususer_token) negative_amount_bet s
           = reject_bet sample_clock (JStr ''custom'') negative_amount_bet
               \<lparr>isFraudulent = True, fraudReason = ''Fraud detected: Invalid bet amount'',
                fraudType = ''negative-amount''\<rparr> s"
  by (simp add: place_bet_def statususer_authenticated [OF assms] place_bet_as_def
      negative_amount_bet_required negative_amount_bet_verdict)

lemma rejected_once_sessions:
  "sessions s = sessions statususer_registered
   \<Longrightarrow> sessions (rejected_once s) = sessions statususer_registered"
  by (simp add: rejected_once_def rejected_once_eq reject_bet_sessions)

lemma rejected_once_flags:
  "sessions s = sessions statususer_registered
   \<Longrightarrow> flags_of (rejected_once s) (JStr ''custom'')
       = flags_of s (JStr ''custom'')
         @ [\<lparr>f_type = ''fraud_attempt'', f_reason = ''Fraud detected: Invalid bet amount'',
             f_timestamp = 1700000005001, f_data = negative_amount_bet\<rparr>]"
proof -
  assume a: "sessions s = sessions statususer_registered"
  have "at_flag sample_clock = 1700000005001" by (simp add: sample_clock_def)
  then show ?thesis
    by (simp add: rejected_once_def rejected_once_eq [OF a] reject_bet_flags)
qed

lemma reject_bet_unknown_account:
  "mget (users s) userId = None \<Longrightarrow> users (snd (reject_bet clk userId betData v s)) = users s"
  by (simp add: reject_bet_def Let_def)

lemma rejected_once_users:
  "sessions s = sessions statususer_registered \<Longrightarrow> users s = users statususer_registered
   \<Longrightarrow> users (rejected_once s) = users statususer_registered"
proof -
  assume a: "sessions s = sessions statususer_registered" "users s = users statususer_registered"
  have "mget (users s) (JStr ''custom'') = None"
    by (simp add: a(2) statususer_registered_def)
  then show ?thesis
    by (simp add: rejected_once_def rejected_once_eq [OF a(1)] reject_bet_unknown_account a(2))
qed

lemma second_legitimate_bet_required: "has_required second_legitimate_bet"
  by (simp add: has_required_def second_legitimate_bet_def obj_def)

lemma second_legitimate_bet_verdict:
  "detect_fraud sample_engine now second_legitimate_bet
     = Some \<lparr>isFraudulent = False, fraudReason = [], fraudType = []\<rparr>"
proof -
  have m: "second_legitimate_bet ''matchId'' = Some (JStr ''match-456'')"
    by (simp add: second_legitimate_bet_def obj_def)
  have "matching_rules sample_engine now second_legitimate_bet = []"
    by (simp add: matching_rules_def fraud_rules_def second_legitimate_bet_def obj_def
        rule_condition_defs sample_engine_simps)
  with detect_fraud_last_rule [of second_legitimate_bet "''match-456''", OF m]
  show ?thesis by (simp add: last_rule_verdict_def)
qed

section \<open>Calls made under a stored account id\<close>

text \<open>
  One call of bet placement. The flag lists or the account store change only when the
  verdict reached is fraudulent, and the bet store changes only when it is legitimate, so
  never both. A fraudulent call leaves the bet store as it was and appends one
  fraud_attempt flag. A legitimate call under an account id that is a string is answered
  201 and does one \<open>set\<close> of a pending record on the bet store, which adds a record
  when the key is new; it leaves the flag lists and the accounts as they were.
\<close>

theorem flagging_and_betting_are_exclusive:
  assumes "place_bet B clk authHeader betData s = (r, s')"
  shows "(accountFlags s' \<noteq> accountFlags s \<or> users s' \<noteq> users s
            \<longrightarrow> judged_fraudulent B clk authHeader betData s)
         \<and> (bets s' \<noteq> bets s \<longrightarrow> judged_legitimate B clk authHeader betData s)
         \<and> \<not> ((accountFlags s' \<noteq> accountFlags s \<or> users s' \<noteq> users s) \<and> bets s' \<noteq> bets s)
         \<and> (judged_fraudulent B clk authHeader betData s
              \<longrightarrow> bets s' = bets s
                  \<and> (\<exists>userId f. authenticateToken s authHeader = Inr userId
                        \<and> flags_of s' userId = flags_of s userId @ [f]
                        \<and> f_type f = ''fraud_attempt''))
         \<and> (judged_legitimate B clk authHeader betData s
              \<and> (\<exists>uid. authenticateToken s authHeader = Inr (JStr uid))
              \<longrightarrow> (\<exists>betId b view.
                      r = Response 201 (BetBody ''Bet placed successfully'' (b_id b) view)
                      \<and> bets s' = mset betId b (bets s) \<and> b_status b = ''pending''
                      \<and> (mget (bets s) betId = None \<longrightarrow> length (bets s') = Suc (length (bets s))))
                  \<and> accountFlags s' = accountFlags s \<and> users s' = users s)"
proof (cases "verdict_reached B clk authHeader betData s")
  case None
  with assms place_bet_unjudged [OF None] show ?thesis
    by (simp add: judged_fraudulent_def judged_legitimate_def)
next
  case (Some v)
  from place_bet_judged [OF Some] obtain userId where
    a: "authenticateToken s authHeader = Inr userId"
    and p: "place_bet B clk authHeader betData s
              = (if isFraudulent v then reject_bet clk userId betData v s
                 else accept_bet clk userId betData s)"
    by blast
  show ?thesis
  proof (cases "isFraudulent v")
    case True
    with p assms have "reject_bet clk userId betData v s = (r, s')" by simp
    then have s': "s' = snd (reject_bet clk userId betData v s)" by simp
    have j: "judged_fraudulent B clk authHeader betData s"
      "\<not> judged_legitimate B clk authHeader betData s"
      using Some True by (simp_all add: judged_fraudulent_def judged_legitimate_def)
    have f: "\<exists>f. flags_of s' userId = flags_of s userId @ [f] \<and> f_type f = ''fraud_attempt''"
      unfolding s' reject_bet_flags by simp
    show ?thesis using j a f by (simp add: s' reject_bet_bets)
  next
    case False
    with p assms have q: "accept_bet clk userId betData s = (r, s')" by simp
    then have s': "s' = snd (accept_bet clk userId betData s)" by simp
    have j: "\<not> judged_fraudulent B clk authHeader betData s"
      "judged_legitimate B clk authHeader betData s"
      using Some False by (simp_all add: judged_fraudulent_def judged_legitimate_def)
    have u: "accountFlags s' = accountFlags s" "users s' = users s"
      by (simp_all add: s' accept_bet_users accept_bet_flags)
    have one: "\<exists>betId b view.
                  r = Response 201 (BetBody ''Bet placed successfully'' (b_id b) view)
                  \<and> bets s' = mset betId b (bets s) \<and> b_status b = ''pending''
                  \<and> (mget (bets s) betId = None \<longrightarrow> length (bets s') = Suc (length (bets s)))"
      if "userId = JStr uid" for uid
    proof -
      from accept_bet_stores_one_bet [of clk uid betData s] q that
      obtain betId b view where
        "r = Response 201 (BetBody ''Bet placed successfully'' (b_id b) view)"
        "s' = s\<lparr>bets := mset betId b (bets s)\<rparr>" "b_status b = ''pending''"
        by auto
      moreover have "mget (bets s) betId = None
                       \<longrightarrow> length (mset betId b (bets s)) = Suc (length (bets s))"
        by (simp add: length_mset_fresh)
      ultimately have
        "r = Response 201 (BetBody ''Bet placed successfully'' (b_id b) view)
         \<and> bets s' = mset betId b (bets s) \<and> b_status b = ''pending''
         \<and> (mget (bets s) betId = None \<longrightarrow> length (bets s') = Suc (length (bets s)))"
        by simp
      then show ?thesis
        by - (rule exI [of _ betId], rule exI [of _ b], rule exI [of _ view], assumption)
    qed
    show ?thesis
    proof (cases "\<exists>uid. userId = JStr uid")
      case True
      then obtain uid where "userId = JStr uid" by blast
      from one [OF this] j u a show ?thesis by simp
    next
      case False
      with accept_bet_bets_other_id [of userId clk betData s] q have "s' = s" by simp
      with j u a False show ?thesis by simp
    qed
  qed
qed

theorem flagging_and_betting_are_exclusive_witness:
  "judged_legitimate sample_engine sample_clock (bearer betuser_token) legitimate_bet two_users
   \<and> authenticateToken two_users (bearer betuser_token) = Inr (JStr ''1700000000000'')
   \<and> bets two_users = []
   \<and> bets (snd (place_bet sample_engine sample_clock (bearer betuser_token) legitimate_bet two_users))
       = [(''BET-1700000005002-17000'',
            \<lparr>b_id = JStr ''BET-1700000005002-17000'', b_userId = JStr ''1700000000000'',
             b_data = legitimate_bet, b_status = ''pending'', b_createdAt = 1700000005003\<rparr>)]
   \<and> accountFlags (snd (place_bet sample_engine sample_clock (bearer betuser_token)
                           legitimate_bet two_users)) = accountFlags two_users
   \<and> users (snd (place_bet sample_engine sample_clock (bearer betuser_token)
                    legitimate_bet two_users)) = users two_users
   \<and> judged_fraudulent sample_engine sample_clock (bearer betuser_token) negative_amount_bet two_users
   \<and> bets (snd (place_bet sample_engine sample_clock (bearer betuser_token)
                   negative_amount_bet two_users)) = []"
proof -
  have l: "judged_legitimate sample_engine sample_clock (bearer betuser_token) legitimate_bet two_users"
    by (simp add: judged_legitimate_def verdict_reached_def betuser_authenticated
        legitimate_bet_required legitimate_bet_verdict)
  have f: "judged_fraudulent sample_engine sample_clock (bearer betuser_token) negative_amount_bet two_users"
    by (simp add: judged_fraudulent_def verdict_reached_def betuser_authenticated
        negative_amount_bet_required negative_amount_bet_verdict)
  have b: "bets two_users = []" by (simp add: two_users_def)
  from flagging_and_betting_are_exclusive [OF surjective_pairing,
         of sample_engine sample_clock "bearer betuser_token" legitimate_bet two_users]
       l betuser_authenticated
  have u: "accountFlags (snd (place_bet sample_engine sample_clock (bearer betuser_token)
                           legitimate_bet two_users)) = accountFlags two_users"
       "users (snd (place_bet sample_engine sample_clock (bearer betuser_token)
                    legitimate_bet two_users)) = users two_users"
    by simp_all
  from flagging_and_betting_are_exclusive [OF surjective_pairing,
         of sample_engine sample_clock "bearer betuser_token" negative_amount_bet two_users] f
  have n: "bets (snd (place_bet sample_engine sample_clock (bearer betuser_token)
                   negative_amount_bet two_users)) = bets two_users"
    by simp
  show ?thesis
    using l f b u n betuser_authenticated by (simp add: legitimate_bet_accepted)
qed

text \<open>
  An account that the account store holds under the id its session carries. When a
  fraudulent bet placement brings its number of fraud_attempt flags to three or more, its
  status is blocked afterwards. A blocked record stays blocked under every series of bet
  placements, logins, history and status queries, and a further fraudulent attempt of a
  blocked account leaves the account store as it was.
\<close>

theorem three_fraud_attempts_block_for_good:
  "(bearer_token authHeader = Some token \<and> mget (sessions s) token = Some sess
      \<and> mget (users s) (s_user_id sess) = Some u
      \<and> judged_fraudulent B clk authHeader betData s
      \<and> 3 \<le> fraud_attempts (flags_of (snd (place_bet B clk authHeader betData s)) (s_user_id sess))
    \<longrightarrow> (\<exists>u'. mget (users (snd (place_bet B clk authHeader betData s))) (s_user_id sess) = Some u'
               \<and> u_status u' = ''blocked''))
   \<and> (mget (users s) k = Some a \<and> u_status a = ''blocked''
        \<and> list_all (\<lambda>r. \<not> is_registration r) rs
      \<longrightarrow> (\<exists>a'. mget (users (serve B rs s)) k = Some a' \<and> u_status a' = ''blocked''))
   \<and> (bearer_token authHeader = Some token \<and> mget (sessions s) token = Some sess
        \<and> mget (users s) (s_user_id sess) = Some u \<and> u_status u = ''blocked''
        \<and> judged_fraudulent B clk authHeader betData s
      \<longrightarrow> users (snd (place_bet B clk authHeader betData s)) = users s)"
proof (intro conjI impI)
  assume "bearer_token authHeader = Some token \<and> mget (sessions s) token = Some sess
      \<and> mget (users s) (s_user_id sess) = Some u
      \<and> judged_fraudulent B clk authHeader betData s
      \<and> 3 \<le> fraud_attempts (flags_of (snd (place_bet B clk authHeader betData s)) (s_user_id sess))"
  then show "\<exists>u'. mget (users (snd (place_bet B clk authHeader betData s))) (s_user_id sess) = Some u'
               \<and> u_status u' = ''blocked''"
    using third_attempt_blocks by blast
next
  assume "mget (users s) k = Some a \<and> u_status a = ''blocked''
        \<and> list_all (\<lambda>r. \<not> is_registration r) rs"
  then show "\<exists>a'. mget (users (serve B rs s)) k = Some a' \<and> u_status a' = ''blocked''"
    using serve_keeps_blocked by blast
next
  assume "bearer_token authHeader = Some token \<and> mget (sessions s) token = Some sess
        \<and> mget (users s) (s_user_id sess) = Some u \<and> u_status u = ''blocked''
        \<and> judged_fraudulent B clk authHeader betData s"
  then show "users (snd (place_bet B clk authHeader betData s)) = users s"
    using blocked_attempt_changes_no_account by blast
qed

theorem three_fraud_attempts_block_for_good_witness:
  "bearer_token (bearer betuser_token) = Some betuser_token
   \<and> mget (sessions two_strikes) betuser_token = Some betuser_session
   \<and> mget (users two_strikes) (JStr ''1700000000000'') = Some betuser
   \<and> u_status betuser = ''active''
   \<and> judged_fraudulent sample_engine sample_clock (bearer betuser_token) negative_amount_bet two_strikes
   \<and> fraud_attempts (flags_of (snd (place_bet sample_engine sample_clock (bearer betuser_token)
         negative_amount_bet two_strikes)) (JStr ''1700000000000'')) = 3
   \<and> (\<exists>u'. mget (users (snd (place_bet sample_engine sample_clock (bearer betuser_token)
                 negative_amount_bet two_strikes))) (JStr ''1700000000000'') = Some u'
            \<and> u_status u' = ''blocked'')
   \<and> mget (users blocked_betuser) (JStr ''1700000000000'') = Some (betuser\<lparr>u_status := ''blocked''\<rparr>)
   \<and> (\<exists>a'. mget (users (serve sample_engine
                 [PlaceBet sample_clock (bearer betuser_token) legitimate_bet,
                  PlaceBet sample_clock (bearer betuser_token) negative_amount_bet,
                  Login \<lparr>at_login_token = 1700000006000, at_login_session = 1700000006001\<rparr>
                    (obj [(''username'', JStr ''betuser''), (''password'', JStr ''BetPass123'')]),
                  AccountStatus 1700000007000 (bearer betuser_token),
                  BetHistory (bearer betuser_token)]
                 blocked_betuser)) (JStr ''1700000000000'') = Some a'
            \<and> u_status a' = ''blocked'')
   \<and> mget (sessions blocked_betuser) betuser_token = Some betuser_session
   \<and> judged_fraudulent sample_engine sample_clock (bearer betuser_token) negative_amount_bet
        blocked_betuser
   \<and> users (snd (place_bet sample_engine sample_clock (bearer betuser_token) negative_amount_bet
                    blocked_betuser)) = users blocked_betuser"
proof -
  let ?rs = "[PlaceBet sample_clock (bearer betuser_token) legitimate_bet,
              PlaceBet sample_clock (bearer betuser_token) negative_amount_bet,
              Login \<lparr>at_login_token = 1700000006000, at_login_session = 1700000006001\<rparr>
                (obj [(''username'', JStr ''betuser''), (''password'', JStr ''BetPass123'')]),
              AccountStatus 1700000007000 (bearer betuser_token),
              BetHistory (bearer betuser_token)]"
  have s1: "mget (sessions two_strikes) betuser_token = Some betuser_session"
    by (simp add: two_strikes_sessions two_users_betuser_session)
  have s2: "mget (sessions blocked_betuser) betuser_token = Some betuser_session"
    by (simp add: blocked_betuser_sessions two_users_betuser_session)
  have u1: "mget (users two_strikes) (JStr ''1700000000000'') = Some betuser"
    by (simp add: two_strikes_def two_users_def)
  have u2: "mget (users blocked_betuser) (JStr ''1700000000000'')
              = Some (betuser\<lparr>u_status := ''blocked''\<rparr>)"
    by (simp add: blocked_betuser_def)
  have a: "u_status betuser = ''active''" by (simp add: betuser_def)
  have f1: "judged_fraudulent sample_engine sample_clock (bearer betuser_token)
              negative_amount_bet two_strikes"
    by (simp add: judged_fraudulent_def verdict_reached_def two_strikes_authenticated
        negative_amount_bet_required negative_amount_bet_verdict)
  have f2: "judged_fraudulent sample_engine sample_clock (bearer betuser_token)
              negative_amount_bet blocked_betuser"
    by (simp add: judged_fraudulent_def verdict_reached_def blocked_betuser_authenticated
        negative_amount_bet_required negative_amount_bet_verdict)
  have p: "place_bet sample_engine sample_clock (bearer betuser_token) negative_amount_bet two_strikes
             = reject_bet sample_clock (JStr ''1700000000000'') negative_amount_bet
                 \<lparr>isFraudulent = True, fraudReason = ''Fraud detected: Invalid bet amount'',
                  fraudType = ''negative-amount''\<rparr> two_strikes"
    by (simp add: place_bet_def two_strikes_authenticated place_bet_as_def
        negative_amount_bet_required negative_amount_bet_verdict)
  have c: "fraud_attempts (flags_of (snd (place_bet sample_engine sample_clock
             (bearer betuser_token) negative_amount_bet two_strikes)) (JStr ''1700000000000'')) = 3"
    unfolding p reject_bet_flags
    by (simp add: fraud_attempts_def flags_of_def two_strikes_def rejected_attempt_def)
  have sid: "s_user_id betuser_session = JStr ''1700000000000''"
    by (simp add: betuser_session_def)
  have nr: "list_all (\<lambda>r. \<not> is_registration r) ?rs" by simp
  have bl: "u_status (betuser\<lparr>u_status := ''blocked''\<rparr>) = ''blocked''" by simp
  note T1 = three_fraud_attempts_block_for_good
    [of "bearer betuser_token" betuser_token two_strikes betuser_session betuser sample_engine
        sample_clock negative_amount_bet "JStr ''1700000000000''" "betuser\<lparr>u_status := ''blocked''\<rparr>" "[]"]
  note T2 = three_fraud_attempts_block_for_good
    [of "bearer betuser_token" betuser_token blocked_betuser betuser_session
        "betuser\<lparr>u_status := ''blocked''\<rparr>" sample_engine
        sample_clock negative_amount_bet "JStr ''1700000000000''" "betuser\<lparr>u_status := ''blocked''\<rparr>" ?rs]
  have r1: "\<exists>u'. mget (users (snd (place_bet sample_engine sample_clock (bearer betuser_token)
                 negative_amount_bet two_strikes))) (JStr ''1700000000000'') = Some u'
            \<and> u_status u' = ''blocked''"
    using T1 betuser_bearer_token s1 u1 f1 c by (simp add: sid)
  have r2: "\<exists>a'. mget (users (serve sample_engine ?rs blocked_betuser)) (JStr ''1700000000000'')
                   = Some a' \<and> u_status a' = ''blocked''"
    using T2 u2 bl nr by blast
  have r3: "users (snd (place_bet sample_engine sample_clock (bearer betuser_token)
              negative_amount_bet blocked_betuser)) = users blocked_betuser"
    using T2 betuser_bearer_token s2 u2 bl f2 by (simp add: sid)
  show ?thesis
    using betuser_bearer_token s1 u1 a f1 c r1 u2 r2 s2 f2 r3 by blast
qed

text \<open>
  For a session whose id is a key of the account store, the status query answers 200 with
  the status of the record under that key, the whole flag list under it, the two
  restrictions exactly when a fraud_attempt flag exists and none otherwise,
  verificationStatus rejected when the status is blocked and verified otherwise, and the
  number of fraud_attempt flags; the stores are unchanged.
\<close>

theorem account_status_report:
  assumes "bearer_token authHeader = Some token" and "mget (sessions s) token = Some sess"
    and "mget (users s) (s_user_id sess) = Some u"
  shows "\<exists>rep. account_status now authHeader s = (Response 200 (StatusBody rep), s)
           \<and> r_accountId rep = s_user_id sess
           \<and> r_status rep = u_status u
           \<and> r_flags rep = flags_of s (s_user_id sess)
           \<and> ((\<exists>f \<in> set (flags_of s (s_user_id sess)). f_type f = ''fraud_attempt'')
                \<longrightarrow> r_restrictions rep = [''betting_restricted'', ''withdrawal_restricted''])
           \<and> (\<not> (\<exists>f \<in> set (flags_of s (s_user_id sess)). f_type f = ''fraud_attempt'')
                \<longrightarrow> r_restrictions rep = [])
           \<and> (u_status u = ''blocked'' \<longrightarrow> r_verificationStatus rep = ''rejected'')
           \<and> (u_status u \<noteq> ''blocked'' \<longrightarrow> r_verificationStatus rep = ''verified'')
           \<and> r_fraudWarnings rep = fraud_attempts (flags_of s (s_user_id sess))"
  using assms
  by (simp add: account_status_def authenticateToken_def account_status_as_def Let_def
      list_ex_iff)

theorem account_status_report_witness:
  "bearer_token (bearer betuser_token) = Some betuser_token
   \<and> mget (sessions blocked_betuser) betuser_token = Some betuser_session
   \<and> mget (users blocked_betuser) (JStr ''1700000000000'') = Some (betuser\<lparr>u_status := ''blocked''\<rparr>)
   \<and> account_status 1700000007000 (bearer betuser_token) blocked_betuser
       = (Response 200
            (StatusBody
               \<lparr>r_accountId = JStr ''1700000000000'', r_status = ''blocked'',
                r_flags = [rejected_attempt, rejected_attempt, rejected_attempt],
                r_restrictions = [''betting_restricted'', ''withdrawal_restricted''],
                r_verificationStatus = ''rejected'', r_fraudWarnings = 3,
                r_lastUpdated = 1700000007000\<rparr>),
          blocked_betuser)"
proof -
  have s2: "mget (sessions blocked_betuser) betuser_token = Some betuser_session"
    by (simp add: blocked_betuser_sessions two_users_betuser_session)
  have u2: "mget (users blocked_betuser) (s_user_id betuser_session)
              = Some (betuser\<lparr>u_status := ''blocked''\<rparr>)"
    by (simp add: blocked_betuser_def betuser_session_def)
  have fl: "flags_of blocked_betuser (s_user_id betuser_session)
              = [rejected_attempt, rejected_attempt, rejected_attempt]"
    by (simp add: flags_of_def blocked_betuser_def betuser_session_def)
  have ft: "f_type rejected_attempt = ''fraud_attempt''" by (simp add: rejected_attempt_def)
  from account_status_report [OF betuser_bearer_token s2 u2, of 1700000007000]
  obtain rep where
    r: "account_status 1700000007000 (bearer betuser_token) blocked_betuser
          = (Response 200 (StatusBody rep), blocked_betuser)"
    and f: "r_accountId rep = s_user_id betuser_session"
      "r_status rep = u_status (betuser\<lparr>u_status := ''blocked''\<rparr>)"
      "r_flags rep = flags_of blocked_betuser (s_user_id betuser_session)"
      "r_restrictions rep = [''betting_restricted'', ''withdrawal_restricted'']"
      "r_verificationStatus rep = ''rejected''"
      "r_fraudWarnings rep = fraud_attempts (flags_of blocked_betuser (s_user_id betuser_session))"
    by (auto simp: fl ft)
  have lu: "r_lastUpdated rep = 1700000007000"
    using r by (simp add: account_status_def blocked_betuser_authenticated account_status_as_def
        Let_def split: option.splits) auto
  have "rep = \<lparr>r_accountId = JStr ''1700000000000'', r_status = ''blocked'',
                r_flags = [rejected_attempt, rejected_attempt, rejected_attempt],
                r_restrictions = [''betting_restricted'', ''withdrawal_restricted''],
                r_verificationStatus = ''rejected'', r_fraudWarnings = 3,
                r_lastUpdated = 1700000007000\<rparr>"
    using f lu fl by (cases rep) (simp add: betuser_session_def fraud_attempts_def ft)
  with r s2 u2 betuser_bearer_token show ?thesis by (simp add: betuser_session_def)
qed

section \<open>The claims\<close>

text \<open>
  In the examples below the account \<open>betuser\<close> has the id \<open>1700000000000\<close> and holds the
  token \<open>betuser_token\<close>; \<open>historyuser\<close> has the id \<open>1700000000100\<close>; \<open>statususer\<close>
  registered with the body field \<open>id: 'custom'\<close> at the millisecond \<open>1700000000300\<close>.
\<close>




text \<open>
  Claim C2, as amended. A request with a session token that resolves, which passes the
  required-field check, whose matchId is a string and whose amount parses to a number not
  above zero, is answered 400; the bet store is unchanged; one fraud_attempt flag is
  appended to the account; the reported category and reason are those of the last matching
  rule, which is negative-amount when no later rule matches.
\<close>

theorem nonpositive_amount_is_rejected_and_flagged:
  assumes "bearer_token authHeader = Some token" and "mget (sessions s) token = Some sess"
    and "has_required betData" and "betData ''matchId'' = Some (JStr m)"
    and "amount_not_positive B betData"
  shows "\<exists>category reason.
           place_bet B clk authHeader betData s
             = (Response 400 (FraudBody reason category reason),
                snd (place_bet B clk authHeader betData s))
           \<and> bets (snd (place_bet B clk authHeader betData s)) = bets s
           \<and> flags_of (snd (place_bet B clk authHeader betData s)) (s_user_id sess)
               = flags_of s (s_user_id sess)
                 @ [\<lparr>f_type = ''fraud_attempt'', f_reason = reason,
                     f_timestamp = at_flag clk, f_data = betData\<rparr>]
           \<and> (category, reason) = snd (last (matching_rules B (at_check clk) betData))
           \<and> (\<not> odds_too_high B betData \<and> \<not> str_includes m ''-altered''
                \<and> \<not> timestamp_too_old B (at_check clk) betData
                \<and> \<not> has_unauthorized_field betData
              \<longrightarrow> category = ''negative-amount''
                  \<and> reason = ''Fraud detected: Invalid bet amount'')"
proof -
  let ?rs = "matching_rules B (at_check clk) betData"
  let ?v = "last_rule_verdict ?rs"
  from assms(5) have ne: "?rs \<noteq> []" by (simp add: matching_rules_def fraud_rules_def)
  have v: "?v = \<lparr>isFraudulent = True, fraudReason = snd (snd (last ?rs)),
                  fraudType = fst (snd (last ?rs))\<rparr>"
    by (rule last_rule_verdict_fraud [OF ne])
  have d: "detect_fraud B (at_check clk) betData = Some ?v"
    by (rule detect_fraud_last_rule [of betData m, OF assms(4)])
  have "isFraudulent ?v" by (simp add: v)
  then have p: "place_bet B clk authHeader betData s
                  = reject_bet clk (s_user_id sess) betData ?v s"
    using place_bet_authenticated [OF assms(1,2)] place_bet_as_fraud [OF assms(3) d] by simp
  have only: "\<not> odds_too_high B betData \<and> \<not> str_includes m ''-altered''
                \<and> \<not> timestamp_too_old B (at_check clk) betData
                \<and> \<not> has_unauthorized_field betData
              \<longrightarrow> last ?rs = (True, ''negative-amount'', ''Fraud detected: Invalid bet amount'')"
    using assms(4,5) by (simp add: matching_rules_def fraud_rules_def)
  show ?thesis
    apply (rule exI [of _ "fst (snd (last ?rs))"])
    apply (rule exI [of _ "snd (snd (last ?rs))"])
    unfolding p reject_bet_bets reject_bet_flags
    using only by (simp add: v prod_eq_iff reject_bet_response)
qed

theorem nonpositive_amount_is_rejected_and_flagged_witness:
  "bearer_token (bearer betuser_token) = Some betuser_token
   \<and> mget (sessions two_users) betuser_token = Some betuser_session
   \<and> has_required negative_amount_bet
   \<and> negative_amount_bet ''matchId'' = Some (JStr ''match-123'')
   \<and> amount_not_positive sample_engine negative_amount_bet
   \<and> fst (place_bet sample_engine sample_clock (bearer betuser_token) negative_amount_bet two_users)
       = Response 400 (FraudBody ''Fraud detected: Invalid bet amount'' ''negative-amount''
           ''Fraud detected: Invalid bet amount'')
   \<and> bets (snd (place_bet sample_engine sample_clock (bearer betuser_token)
                   negative_amount_bet two_users)) = []
   \<and> flags_of (snd (place_bet sample_engine sample_clock (bearer betuser_token)
                       negative_amount_bet two_users)) (JStr ''1700000000000'')
       = [\<lparr>f_type = ''fraud_attempt'', f_reason = ''Fraud detected: Invalid bet amount'',
           f_timestamp = 1700000005001, f_data = negative_amount_bet\<rparr>]"
proof -
  have h3: "has_required negative_amount_bet"
    by (simp add: has_required_def negative_amount_bet_def obj_def)
  have h4: "negative_amount_bet ''matchId'' = Some (JStr ''match-123'')"
    by (simp add: negative_amount_bet_def obj_def)
  have h5: "amount_not_positive sample_engine negative_amount_bet"
    by (simp add: amount_not_positive_def negative_amount_bet_def obj_def)
  have f: "flags_of two_users (JStr ''1700000000000'') = []"
    by (simp add: flags_of_def two_users_def)
  have b: "bets two_users = []" by (simp add: two_users_def)
  from nonpositive_amount_is_rejected_and_flagged
         [OF betuser_bearer_token two_users_betuser_session h3 h4 h5,
          of sample_clock]
  obtain category reason where
    r: "place_bet sample_engine sample_clock (bearer betuser_token) negative_amount_bet two_users
          = (Response 400 (FraudBody reason category reason),
             snd (place_bet sample_engine sample_clock (bearer betuser_token)
                    negative_amount_bet two_users))"
    and bs: "bets (snd (place_bet sample_engine sample_clock (bearer betuser_token)
                    negative_amount_bet two_users)) = bets two_users"
    and fl: "flags_of (snd (place_bet sample_engine sample_clock (bearer betuser_token)
                       negative_amount_bet two_users)) (s_user_id betuser_session)
               = flags_of two_users (s_user_id betuser_session)
                 @ [\<lparr>f_type = ''fraud_attempt'', f_reason = reason,
                     f_timestamp = at_flag sample_clock, f_data = negative_amount_bet\<rparr>]"
    and l: "(category, reason)
              = snd (last (matching_rules sample_engine (at_check sample_clock) negative_amount_bet))"
    by blast
  from l have cr: "category = ''negative-amount''" "reason = ''Fraud detected: Invalid bet amount''"
    by (simp_all add: negative_amount_rules)
  have fst: "fst (place_bet sample_engine sample_clock (bearer betuser_token) negative_amount_bet two_users)
       = Response 400 (FraudBody reason category reason)"
    using r by (metis fst_conv)
  show ?thesis
    using betuser_bearer_token two_users_betuser_session h3 h4 h5 fst bs fl
    by (simp add: cr b f betuser_session_def sample_clock_def)
qed

text \<open>
  Claim C2 as stated fails on a request whose amount is the number 0: the amount is not
  above zero, yet the required-field check answers first and no flag is appended.
\<close>

theorem zero_amount_is_not_flagged:
  "authenticateToken two_users (bearer betuser_token) = Inr (JStr ''1700000000000'')
   \<and> zero_amount_bet ''amount'' = Some (JNum (Fnum 0))
   \<and> amount_not_positive sample_engine zero_amount_bet
   \<and> place_bet sample_engine sample_clock (bearer betuser_token) zero_amount_bet two_users
       = (Response 400 (ErrorBody ''Missing required bet information''), two_users)
   \<and> flags_of two_users (JStr ''1700000000000'') = []"
  by (simp add: betuser_authenticated place_bet_def place_bet_as_def has_required_def
      zero_amount_bet_def obj_def amount_not_positive_def flags_of_def)
     (simp add: two_users_def)

text \<open>
  Claim C5. On each of the three protected routes a request without an Authorization
  header is answered 401 "Unauthorized: Missing token"; one whose token is not in the
  session store is answered 401 "Unauthorized: Invalid token"; in both cases the stores
  are unchanged; and with a token that resolves the route handler runs with the id of the
  session's user.
\<close>

theorem authentication_gate:
  "place_bet B clk None betData s = (Response 401 (ErrorBody ''Unauthorized: Missing token''), s)
   \<and> bet_history None s = (Response 401 (ErrorBody ''Unauthorized: Missing token''), s)
   \<and> account_status now None s = (Response 401 (ErrorBody ''Unauthorized: Missing token''), s)
   \<and> (bearer_token authHeader = Some token \<and> mget (sessions s) token = None \<longrightarrow>
        place_bet B clk authHeader betData s
          = (Response 401 (ErrorBody ''Unauthorized: Invalid token''), s)
        \<and> bet_history authHeader s = (Response 401 (ErrorBody ''Unauthorized: Invalid token''), s)
        \<and> account_status now authHeader s
          = (Response 401 (ErrorBody ''Unauthorized: Invalid token''), s))
   \<and> (bearer_token authHeader = Some token \<and> mget (sessions s) token = Some sess \<longrightarrow>
        place_bet B clk authHeader betData s = place_bet_as B clk (s_user_id sess) betData s
        \<and> bet_history authHeader s = bet_history_as (s_user_id sess) s
        \<and> account_status now authHeader s = account_status_as now (s_user_id sess) s)"
  by (simp add: place_bet_def bet_history_def account_status_def authenticateToken_def
      bearer_token_def)

theorem authentication_gate_witness:
  "bearer_token (Some ''Bearer invalid-token'') = Some ''invalid-token''
   \<and> mget (sessions two_users) ''invalid-token'' = None
   \<and> place_bet sample_engine sample_clock (Some ''Bearer invalid-token'') legitimate_bet two_users
       = (Response 401 (ErrorBody ''Unauthorized: Invalid token''), two_users)
   \<and> bet_history (Some ''Bearer invalid-token'') two_users
       = (Response 401 (ErrorBody ''Unauthorized: Invalid token''), two_users)
   \<and> account_status 1700000005000 (Some ''Bearer invalid-token'') two_users
       = (Response 401 (ErrorBody ''Unauthorized: Invalid token''), two_users)
   \<and> bearer_token (bearer betuser_token) = Some betuser_token
   \<and> mget (sessions two_users) betuser_token = Some betuser_session
   \<and> bet_history (bearer betuser_token) two_users
       = bet_history_as (JStr ''1700000000000'') two_users"
proof -
  have t: "bearer_token (Some ''Bearer invalid-token'') = Some ''invalid-token''"
    by (simp add: bearer_token_def)
  have n: "mget (sessions two_users) ''invalid-token'' = None"
    by (simp add: two_users_def betuser_token_def historyuser_token_def)
  show ?thesis
    using authentication_gate [of sample_engine sample_clock legitimate_bet two_users
            1700000005000 "Some ''Bearer invalid-token''" "''invalid-token''"]
      authentication_gate [of sample_engine sample_clock legitimate_bet two_users
            1700000005000 "bearer betuser_token" betuser_token betuser_session]
      t n betuser_bearer_token two_users_betuser_session
    by (simp add: betuser_session_def)
qed

text \<open>
  Claim C10. An authenticated bet request whose amount is the number 0, or whose odds is
  the number 0, or whose matchId or selection is the empty string, is answered 400
  "Missing required bet information" and leaves every store as it was: no fraud rule
  decides anything and no flag is appended.
\<close>

theorem zero_or_empty_required_field_is_missing:
  assumes "authenticateToken s authHeader = Inr userId"
    and "betData ''amount'' = Some (JNum (Fnum 0)) \<or> betData ''odds'' = Some (JNum (Fnum 0))
         \<or> betData ''matchId'' = Some (JStr []) \<or> betData ''selection'' = Some (JStr [])"
  shows "place_bet B clk authHeader betData s
           = (Response 400 (ErrorBody ''Missing required bet information''), s)"
  using assms by (auto simp: place_bet_def place_bet_as_def has_required_def)

theorem zero_or_empty_required_field_is_missing_witness:
  "authenticateToken two_users (bearer betuser_token) = Inr (JStr ''1700000000000'')
   \<and> zero_amount_bet ''amount'' = Some (JNum (Fnum 0))
   \<and> place_bet sample_engine sample_clock (bearer betuser_token) zero_amount_bet two_users
       = (Response 400 (ErrorBody ''Missing required bet information''), two_users)"
proof -
  have a: "zero_amount_bet ''amount'' = Some (JNum (Fnum 0))"
    by (simp add: zero_amount_bet_def obj_def)
  show ?thesis
    using zero_or_empty_required_field_is_missing
            [of two_users "bearer betuser_token" "JStr ''1700000000000''" zero_amount_bet
               sample_engine sample_clock]
      betuser_authenticated a
    by simp
qed

text \<open>
  Claim C6, as amended. A registration request that passes the required-field check and
  whose username or email is that of an account of the account store is answered 409
  and changes no store. In particular, after a registration that was answered 201, a
  second complete request with the same username is answered 409, whatever its email.
\<close>

theorem duplicate_registration_conflicts:
  "(truthy (userData ''username'') \<and> truthy (userData ''email'')
      \<and> truthy (userData ''password'') \<and> u \<in> set (mvalues (users s))
      \<and> (u_data u ''username'' = userData ''username'' \<or> u_data u ''email'' = userData ''email'')
    \<longrightarrow> register B clk userData s
          = (Response 409 (ErrorBody ''Username or email already exists''), s))
   \<and> (fst (register B clk1 firstData s) = Response 201 p
        \<and> secondData ''username'' = firstData ''username''
        \<and> truthy (secondData ''email'') \<and> truthy (secondData ''password'')
      \<longrightarrow> register B clk2 secondData (snd (register B clk1 firstData s))
            = (Response 409 (ErrorBody ''Username or email already exists''),
               snd (register B clk1 firstData s)))"
proof (intro conjI impI)
  assume "truthy (userData ''username'') \<and> truthy (userData ''email'')
      \<and> truthy (userData ''password'') \<and> u \<in> set (mvalues (users s))
      \<and> (u_data u ''username'' = userData ''username'' \<or> u_data u ''email'' = userData ''email'')"
  then show "register B clk userData s
          = (Response 409 (ErrorBody ''Username or email already exists''), s)"
    using register_conflict by blast
next
  assume a: "fst (register B clk1 firstData s) = Response 201 p
        \<and> secondData ''username'' = firstData ''username''
        \<and> truthy (secondData ''email'') \<and> truthy (secondData ''password'')"
  with register_created [of B clk1 firstData s p] obtain u where
    u: "u \<in> set (mvalues (users (snd (register B clk1 firstData s))))" "u_data u = firstData"
    and t: "truthy (firstData ''username'')"
    by blast
  from a t have "truthy (secondData ''username'')" by simp
  moreover from a u(2) have "u_data u ''username'' = secondData ''username''" by simp
  ultimately show "register B clk2 secondData (snd (register B clk1 firstData s))
            = (Response 409 (ErrorBody ''Username or email already exists''),
               snd (register B clk1 firstData s))"
    using a u(1) register_conflict by blast
qed

theorem duplicate_registration_conflicts_witness:
  "truthy (second_registration ''username'') \<and> truthy (second_registration ''email'')
   \<and> truthy (second_registration ''password'')
   \<and> duplicateuser \<in> set (mvalues (users one_registered))
   \<and> u_data duplicateuser ''username'' = second_registration ''username''
   \<and> u_data duplicateuser ''email'' \<noteq> second_registration ''email''
   \<and> register sample_engine later_clock second_registration one_registered
       = (Response 409 (ErrorBody ''Username or email already exists''), one_registered)
   \<and> snd (register sample_engine first_clock first_registration empty_server) = one_registered
   \<and> register sample_engine later_clock second_registration
         (snd (register sample_engine first_clock first_registration empty_server))
       = (Response 409 (ErrorBody ''Username or email already exists''),
          snd (register sample_engine first_clock first_registration empty_server))"
proof -
  have t: "truthy (second_registration ''username'')" "truthy (second_registration ''email'')"
    "truthy (second_registration ''password'')"
    by (simp_all add: second_registration_def obj_def)
  have m: "duplicateuser \<in> set (mvalues (users one_registered))"
    by (simp add: one_registered_def mvalues_def)
  have e: "u_data duplicateuser ''username'' = second_registration ''username''"
    "u_data duplicateuser ''email'' \<noteq> second_registration ''email''"
    by (simp_all add: duplicateuser_def first_registration_def second_registration_def obj_def)
  have f: "fst (register sample_engine first_clock first_registration empty_server)
             = Response 201
                 (AuthBody ''User registered successfully'' ''MTcwMDAwMDAwMDIwMDoxNzAwMDAwMDAwMjAx''
                    \<lparr>uv_id = JStr ''1700000000200'', uv_username = Some (JStr ''duplicateuser''),
                     uv_email = Some (JStr ''first@example.com''), uv_status = ''active''\<rparr>)"
    and o: "snd (register sample_engine first_clock first_registration empty_server)
              = one_registered"
    by (simp_all add: first_registration_succeeds)
  have n: "second_registration ''username'' = first_registration ''username''"
    by (simp add: first_registration_def second_registration_def obj_def)
  note T1 = duplicate_registration_conflicts
    [of second_registration duplicateuser one_registered sample_engine later_clock]
  note T = duplicate_registration_conflicts
    [of _ _ empty_server sample_engine _ first_clock first_registration _ second_registration
        later_clock]
  have r1: "register sample_engine later_clock second_registration one_registered
       = (Response 409 (ErrorBody ''Username or email already exists''), one_registered)"
    using T1 t m e by blast
  have r2: "register sample_engine later_clock second_registration
         (snd (register sample_engine first_clock first_registration empty_server))
       = (Response 409 (ErrorBody ''Username or email already exists''),
          snd (register sample_engine first_clock first_registration empty_server))"
    using T f n t by blast
  show ?thesis using t m e r1 o r2 by blast
qed

text \<open>
  Claim C6 as stated fails on a request that repeats a registered username and has no
  password: the required-field check answers 400 before the account store is searched.
\<close>

theorem incomplete_duplicate_is_answered_400:
  "duplicateuser \<in> set (mvalues (users one_registered))
   \<and> u_data duplicateuser ''username'' = second_without_password ''username''
   \<and> register sample_engine later_clock second_without_password one_registered
       = (Response 400 (ErrorBody ''Missing required fields''), one_registered)"
  by (simp add: one_registered_def mvalues_def duplicateuser_def first_registration_def
      second_without_password_def obj_def register_def)

text \<open>
  Claim C9, as amended. For an account that is blocked and holds a session token, a bet
  request that passes the required-field check, has a string matchId, matches no fraud
  rule and has no userId field other than the account's own id is answered 201; its bet
  is stored with status pending under the account's id, the account stays as it was, and
  the account's bet history lists the bet.
\<close>

theorem blocked_account_can_still_bet:
  assumes "bearer_token authHeader = Some token" and "mget (sessions s) token = Some sess"
    and "s_user_id sess = JStr uid"
    and "mget (users s) (JStr uid) = Some u" and "u_status u = ''blocked''"
    and "has_required betData" and "betData ''matchId'' = Some (JStr m)"
    and "matching_rules B (at_check clk) betData = []"
    and "betData ''userId'' = None \<or> betData ''userId'' = Some (JStr uid)"
  shows "\<exists>betId b view items s'.
           place_bet B clk authHeader betData s
             = (Response 201 (BetBody ''Bet placed successfully'' (b_id b) view), s')
           \<and> mget (bets s') betId = Some b \<and> b_status b = ''pending''
           \<and> b_userId b = JStr uid \<and> b_data b = betData
           \<and> mget (users s') (JStr uid) = Some u
           \<and> bet_history authHeader s' = (Response 200 (HistoryBody items), s')
           \<and> history_item_of b \<in> set items"
proof -
  have d: "detect_fraud B (at_check clk) betData
             = Some \<lparr>isFraudulent = False, fraudReason = [], fraudType = []\<rparr>"
    using detect_fraud_last_rule [of betData m B "at_check clk", OF assms(7)] assms(8)
    by (simp add: last_rule_verdict_def)
  have p: "place_bet B clk authHeader betData s = accept_bet clk (JStr uid) betData s"
    using place_bet_authenticated [OF assms(1,2)] place_bet_as_legit [OF assms(6) d] assms(3)
    by simp
  from accept_bet_stores_one_bet [of clk uid betData s] obtain betId b where
    a: "accept_bet clk (JStr uid) betData s
          = (Response 201
               (BetBody ''Bet placed successfully'' (b_id b)
                  \<lparr>bv_id = b_id b, bv_matchId = betData ''matchId'',
                   bv_selection = betData ''selection'', bv_odds = betData ''odds'',
                   bv_amount = betData ''amount'', bv_status = ''pending''\<rparr>),
             s\<lparr>bets := mset betId b (bets s)\<rparr>)"
    and b: "b_status b = ''pending''" "b_data b = betData"
      "b_userId b = overridable betData ''userId'' (JStr uid)"
    by blast
  let ?s' = "s\<lparr>bets := mset betId b (bets s)\<rparr>"
  have owner: "b_userId b = JStr uid"
    using b(3) assms(9) by (auto simp: overridable_def)
  have stored: "mget (bets ?s') betId = Some b" by (simp add: mget_mset_same)
  have h: "bet_history authHeader ?s'
             = (Response 200 (HistoryBody (map history_item_of (user_bets ?s' (JStr uid)))), ?s')"
    using assms(1,2,3) by (simp add: bet_history_def authenticateToken_def bet_history_as_def)
  have "b \<in> set (user_bets ?s' (JStr uid))"
    by (simp add: user_bets_member mvalues_mset_member owner strict_eq_def)
  then have listed: "history_item_of b \<in> set (map history_item_of (user_bets ?s' (JStr uid)))"
    by simp
  have "place_bet B clk authHeader betData s
             = (Response 201 (BetBody ''Bet placed successfully'' (b_id b)
                  \<lparr>bv_id = b_id b, bv_matchId = betData ''matchId'',
                   bv_selection = betData ''selection'', bv_odds = betData ''odds'',
                   bv_amount = betData ''amount'', bv_status = ''pending''\<rparr>), ?s')
           \<and> mget (bets ?s') betId = Some b \<and> b_status b = ''pending''
           \<and> b_userId b = JStr uid \<and> b_data b = betData
           \<and> mget (users ?s') (JStr uid) = Some u
           \<and> bet_history authHeader ?s'
               = (Response 200 (HistoryBody (map history_item_of (user_bets ?s' (JStr uid)))), ?s')
           \<and> history_item_of b \<in> set (map history_item_of (user_bets ?s' (JStr uid)))"
    using p a b(1,2) owner stored h listed assms(4) by simp
  then show ?thesis
    by - (rule exI [of _ betId], rule exI [of _ b], rule exI, rule exI, rule exI, assumption)
qed

theorem blocked_account_can_still_bet_witness:
  "bearer_token (bearer betuser_token) = Some betuser_token
   \<and> mget (sessions blocked_betuser) betuser_token = Some betuser_session
   \<and> s_user_id betuser_session = JStr ''1700000000000''
   \<and> mget (users blocked_betuser) (JStr ''1700000000000'') = Some (betuser\<lparr>u_status := ''blocked''\<rparr>)
   \<and> u_status (betuser\<lparr>u_status := ''blocked''\<rparr>) = ''blocked''
   \<and> has_required legitimate_bet
   \<and> legitimate_bet ''matchId'' = Some (JStr ''match-123'')
   \<and> matching_rules sample_engine (at_check sample_clock) legitimate_bet = []
   \<and> legitimate_bet ''userId'' = None
   \<and> fst (place_bet sample_engine sample_clock (bearer betuser_token) legitimate_bet
             blocked_betuser)
       = Response 201
          (BetBody ''Bet placed successfully'' (JStr ''BET-1700000005002-17000'')
             \<lparr>bv_id = JStr ''BET-1700000005002-17000'', bv_matchId = Some (JStr ''match-123''),
              bv_selection = Some (JStr ''home''), bv_odds = Some (JStr ''2.5''),
              bv_amount = Some (JNum (Fnum 50)), bv_status = ''pending''\<rparr>)
   \<and> (\<exists>betId b view items s'.
         place_bet sample_engine sample_clock (bearer betuser_token) legitimate_bet blocked_betuser
           = (Response 201 (BetBody ''Bet placed successfully'' (b_id b) view), s')
         \<and> mget (bets s') betId = Some b \<and> b_status b = ''pending''
         \<and> b_userId b = JStr ''1700000000000'' \<and> b_data b = legitimate_bet
         \<and> mget (users s') (JStr ''1700000000000'') = Some (betuser\<lparr>u_status := ''blocked''\<rparr>)
         \<and> bet_history (bearer betuser_token) s' = (Response 200 (HistoryBody items), s')
         \<and> history_item_of b \<in> set items)"
proof -
  have s2: "mget (sessions blocked_betuser) betuser_token = Some betuser_session"
    by (simp add: blocked_betuser_sessions two_users_betuser_session)
  have sid: "s_user_id betuser_session = JStr ''1700000000000''"
    by (simp add: betuser_session_def)
  have u2: "mget (users blocked_betuser) (JStr ''1700000000000'')
              = Some (betuser\<lparr>u_status := ''blocked''\<rparr>)"
    by (simp add: blocked_betuser_def)
  have bl: "u_status (betuser\<lparr>u_status := ''blocked''\<rparr>) = ''blocked''" by simp
  have m: "legitimate_bet ''matchId'' = Some (JStr ''match-123'')"
    by (simp add: legitimate_bet_def obj_def)
  have n: "legitimate_bet ''userId'' = None"
    by (simp add: legitimate_bet_def obj_def)
  have r: "matching_rules sample_engine (at_check sample_clock) legitimate_bet = []"
    by (rule legitimate_rules)
  note T = blocked_account_can_still_bet
    [OF betuser_bearer_token s2 sid u2 bl legitimate_bet_required m r disjI1 [OF n]]
  show ?thesis
    using T betuser_bearer_token s2 sid u2 legitimate_bet_required m r n
    by (simp add: legitimate_bet_accepted_when_blocked)
qed

text \<open>
  Claim C9 as stated fails on a request that matches no fraud rule and has no selection:
  the blocked account's request is answered 400 and no bet is stored.
\<close>

theorem incomplete_bet_is_not_accepted:
  "bearer_token (bearer betuser_token) = Some betuser_token
   \<and> mget (sessions blocked_betuser) betuser_token = Some betuser_session
   \<and> mget (users blocked_betuser) (JStr ''1700000000000'') = Some (betuser\<lparr>u_status := ''blocked''\<rparr>)
   \<and> matching_rules sample_engine (at_check sample_clock) no_selection_bet = []
   \<and> place_bet sample_engine sample_clock (bearer betuser_token) no_selection_bet blocked_betuser
       = (Response 400 (ErrorBody ''Missing required bet information''), blocked_betuser)"
proof -
  have "matching_rules sample_engine (at_check sample_clock) no_selection_bet = []"
    by (simp add: matching_rules_def fraud_rules_def no_selection_bet_def obj_def
        rule_condition_defs sample_engine_simps)
  moreover have "\<not> has_required no_selection_bet"
    by (simp add: has_required_def no_selection_bet_def obj_def)
  moreover have "mget (sessions blocked_betuser) betuser_token = Some betuser_session"
    by (simp add: blocked_betuser_sessions two_users_betuser_session)
  moreover have "mget (users blocked_betuser) (JStr ''1700000000000'')
                   = Some (betuser\<lparr>u_status := ''blocked''\<rparr>)"
    by (simp add: blocked_betuser_def)
  ultimately show ?thesis
    by (simp add: place_bet_def blocked_betuser_authenticated place_bet_as_def
        betuser_bearer_token)
qed

text \<open>
  Claim C7 fails on the code. In \<open>{id: betId, userId, ...betData, ...}\<close> the fields of
  the request are copied over the owner: \<open>betuser\<close> places a legitimate bet whose body
  has the field \<open>userId\<close> with the id of \<open>historyuser\<close>; the bet is then missing from
  the history of \<open>betuser\<close> and listed in the history of \<open>historyuser\<close>.
\<close>

theorem bet_is_listed_under_another_account:
  "fst (place_bet sample_engine sample_clock (bearer betuser_token) misattributed_bet two_users)
     = Response 201
         (BetBody ''Bet placed successfully'' (JStr ''BET-1700000005002-17000'')
            \<lparr>bv_id = JStr ''BET-1700000005002-17000'', bv_matchId = Some (JStr ''match-456''),
             bv_selection = Some (JStr ''away''), bv_odds = Some (JStr ''1.8''),
             bv_amount = Some (JNum (Fnum 25)), bv_status = ''pending''\<rparr>)
   \<and> fst (bet_history (bearer betuser_token)
            (snd (place_bet sample_engine sample_clock (bearer betuser_token) misattributed_bet
                    two_users)))
       = Response 200 (HistoryBody [])
   \<and> fst (bet_history (bearer historyuser_token)
            (snd (place_bet sample_engine sample_clock (bearer betuser_token) misattributed_bet
                    two_users)))
       = Response 200
           (HistoryBody
              [\<lparr>h_id = JStr ''BET-1700000005002-17000'', h_matchId = Some (JStr ''match-456''),
                h_selection = Some (JStr ''away''), h_odds = Some (JStr ''1.8''),
                h_amount = Some (JNum (Fnum 25)), h_status = ''pending'',
                h_createdAt = 1700000005003\<rparr>])"
  apply (simp add: misattributed_bet_accepted)
  apply (simp add: bet_history_def betuser_authenticated_after historyuser_authenticated_after
      bet_history_as_def user_bets_def mvalues_def strict_eq_def history_item_of_def)
  apply (simp add: misattributed_bet_def obj_def)
  done

text \<open>
  Claim C3 fails on the code. The key of a bet is \<open>BET-\<close>, the millisecond of the
  request and the first five characters of the account id: \<open>betuser\<close> places two
  legitimate bets within one millisecond, both are answered 201, and the second record
  replaces the first in the bet store, which then holds one record.
\<close>

theorem second_bet_of_the_millisecond_replaces_the_first:
  "fst (place_bet sample_engine sample_clock (bearer betuser_token) legitimate_bet two_users)
     = Response 201
         (BetBody ''Bet placed successfully'' (JStr ''BET-1700000005002-17000'')
            \<lparr>bv_id = JStr ''BET-1700000005002-17000'', bv_matchId = Some (JStr ''match-123''),
             bv_selection = Some (JStr ''home''), bv_odds = Some (JStr ''2.5''),
             bv_amount = Some (JNum (Fnum 50)), bv_status = ''pending''\<rparr>)
   \<and> place_bet sample_engine sample_clock (bearer betuser_token) second_legitimate_bet
         (snd (place_bet sample_engine sample_clock (bearer betuser_token) legitimate_bet
                 two_users))
       = (Response 201
            (BetBody ''Bet placed successfully'' (JStr ''BET-1700000005002-17000'')
               \<lparr>bv_id = JStr ''BET-1700000005002-17000'', bv_matchId = Some (JStr ''match-456''),
                bv_selection = Some (JStr ''away''), bv_odds = Some (JStr ''1.8''),
                bv_amount = Some (JNum (Fnum 25)), bv_status = ''pending''\<rparr>),
          two_users\<lparr>bets :=
            [(''BET-1700000005002-17000'',
              \<lparr>b_id = JStr ''BET-1700000005002-17000'', b_userId = JStr ''1700000000000'',
               b_data = second_legitimate_bet, b_status = ''pending'',
               b_createdAt = 1700000005003\<rparr>)]\<rparr>)"
  apply (simp add: legitimate_bet_accepted)
  apply (simp add: place_bet_def betuser_authenticated_after place_bet_as_def
      second_legitimate_bet_required second_legitimate_bet_verdict)
  apply (simp add: accept_bet_def Let_def sample_betId overridable_def)
  apply (simp add: second_legitimate_bet_def obj_def two_users_def sample_clock_def)
  done

text \<open>
  Claim C4 fails on the code. In \<open>{id: userId, ...userData, createdAt, status}\<close> the
  fields of the request are copied over the id: an account registered with a body field
  \<open>id\<close> is stored under the millisecond of its registration, while its session, its flags
  and the search for the account to block go by the body's id. After three rejected bets
  the account has three fraud_attempt flags, is still active and logs in.
\<close>

theorem account_with_body_id_is_never_blocked:
  "fst (register sample_engine statususer_clock registration_with_id empty_server)
     = Response 201
         (AuthBody ''User registered successfully'' statususer_token
            \<lparr>uv_id = JStr ''custom'', uv_username = Some (JStr ''statususer''),
             uv_email = Some (JStr ''status@example.com''), uv_status = ''active''\<rparr>)
   \<and> snd (register sample_engine statususer_clock registration_with_id empty_server)
       = statususer_registered
   \<and> fst (place_bet sample_engine sample_clock (bearer statususer_token) negative_amount_bet
             (rejected_once (rejected_once statususer_registered)))
       = Response 400 (FraudBody ''Fraud detected: Invalid bet amount'' ''negative-amount''
           ''Fraud detected: Invalid bet amount'')
   \<and> fraud_attempts (flags_of statususer_after_three (JStr ''custom'')) = 3
   \<and> users statususer_after_three = [(JStr ''1700000000300'', statususer)]
   \<and> u_status statususer = ''active''
   \<and> fst (login sample_engine statususer_login_clock statususer_credentials
             statususer_after_three)
       = Response 200
           (AuthBody ''Login successful'' ''Y3VzdG9tOjE3MDAwMDAwMDYwMDA=''
              \<lparr>uv_id = JStr ''custom'', uv_username = Some (JStr ''statususer''),
               uv_email = Some (JStr ''status@example.com''), uv_status = ''active''\<rparr>)"
proof -
  let ?s1 = "rejected_once statususer_registered"
  let ?s2 = "rejected_once ?s1"
  have s1: "sessions ?s1 = sessions statususer_registered"
    by (simp add: rejected_once_sessions)
  have s2: "sessions ?s2 = sessions statususer_registered"
    by (simp add: rejected_once_sessions s1)
  have u1: "users ?s1 = users statususer_registered" by (simp add: rejected_once_users)
  have u2: "users ?s2 = users statususer_registered" by (simp add: rejected_once_users s1 u1)
  have u3: "users statususer_after_three = users statususer_registered"
    by (simp add: statususer_after_three_def rejected_once_users s2 u2)
  have f0: "flags_of statususer_registered (JStr ''custom'') = []"
    by (simp add: flags_of_def statususer_registered_def)
  have f3: "fraud_attempts (flags_of statususer_after_three (JStr ''custom'')) = 3"
    by (simp add: statususer_after_three_def rejected_once_flags s1 s2 f0 fraud_attempts_def)
  have r: "fst (place_bet sample_engine sample_clock (bearer statususer_token) negative_amount_bet ?s2)
       = Response 400 (FraudBody ''Fraud detected: Invalid bet amount'' ''negative-amount''
           ''Fraud detected: Invalid bet amount'')"
    by (simp add: rejected_once_eq [OF s2] reject_bet_response)
  have c: "statususer_credentials ''username'' = Some (JStr ''statususer'')"
    "statususer_credentials ''password'' = Some (JStr ''StatusPass123'')"
    by (simp_all add: statususer_credentials_def obj_def)
  have l: "fst (login sample_engine statususer_login_clock statususer_credentials
             statususer_after_three)
       = Response 200
           (AuthBody ''Login successful'' ''Y3VzdG9tOjE3MDAwMDAwMDYwMDA=''
              \<lparr>uv_id = JStr ''custom'', uv_username = Some (JStr ''statususer''),
               uv_email = Some (JStr ''status@example.com''), uv_status = ''active''\<rparr>)"
    by (simp add: login_def u3 statususer_registered_def mvalues_def credentials_match_def
        strict_eq_def statususer_def registration_with_id_def obj_def c Let_def
        statususer_login_clock_def dec.simps sample_engine_def statususer_login_token
        user_view_of_def)
  show ?thesis
    using r f3 l by (simp add: registration_with_id_succeeds u3 statususer_registered_def
        statususer_def)
qed

text \<open>
  Claim C8 fails on the code, by the same copying of the body over the id: the account
  registered with a body field \<open>id\<close> asks for its status with the token registration
  gave it and is answered 404.
\<close>

theorem account_with_body_id_has_no_status_report:
  "fst (register sample_engine statususer_clock registration_with_id empty_server)
     = Response 201
         (AuthBody ''User registered successfully'' statususer_token
            \<lparr>uv_id = JStr ''custom'', uv_username = Some (JStr ''statususer''),
             uv_email = Some (JStr ''status@example.com''), uv_status = ''active''\<rparr>)
   \<and> account_status 1700000007000 (bearer statususer_token)
         (snd (register sample_engine statususer_clock registration_with_id empty_server))
       = (Response 404 (ErrorBody ''User not found''),
          snd (register sample_engine statususer_clock registration_with_id empty_server))"
  by (simp add: registration_with_id_succeeds account_status_def statususer_authenticated
      account_status_as_def)
     (simp add: statususer_registered_def)

end
